theory Spec2Isabelle
  imports Complex_Main
begin

section \<open>Numbers\<close>

text \<open>
  A JavaScript number is an IEEE-754 double: a finite value, given here as the rational
  it is, one of the two infinities, or \<open>NaN\<close>. The sign of a zero is not kept: no
  output of the tools depends on it (\<open>JSON.stringify\<close> and \<open>toFixed\<close> write both
  zeros alike, and every division of the tools has a divisor that is not zero).
\<close>

datatype jsnum = Num rat | PosInfinity | NegInfinity | NaN

text \<open>
  Rounding a real result to the nearest double, a tie to the one with the even
  significand: the unit in the last place is \<open>2\<^sup>q\<close> where \<open>q\<close> is 52 below the binary
  exponent of the value, and not below \<open>-1074\<close>; what rounds to \<open>2\<^sup>1\<^sup>0\<^sup>2\<^sup>4\<close> or more is
  an infinity.
\<close>

fun bit_length :: "nat \<Rightarrow> nat" where
  "bit_length n = (if n = 0 then 0 else Suc (bit_length (n div 2)))"

declare bit_length.simps [simp del]

definition pow2 :: "int \<Rightarrow> rat" where
  "pow2 e = (if 0 \<le> e then 2 ^ nat e else 1 / 2 ^ nat (- e))"

text \<open>The binary exponent of a positive value: the largest \<open>e\<close> with \<open>2\<^sup>e \<le> x\<close>.\<close>

definition floor_log2 :: "rat \<Rightarrow> int" where
  "floor_log2 x =
    (if 1 \<le> x then int (bit_length (nat \<lfloor>x\<rfloor>)) - 1
     else (let k = int (bit_length (nat \<lfloor>1 / x\<rfloor>)) - 1
           in if pow2 k = 1 / x then - k else - k - 1))"

definition round_half_even :: "rat \<Rightarrow> int" where
  "round_half_even r =
    (let f = \<lfloor>r\<rfloor>; d = r - of_int f
     in if d < 1 / 2 then f else if 1 / 2 < d then f + 1 else if even f then f else f + 1)"

definition round_double :: "rat \<Rightarrow> jsnum" where
  "round_double x =
    (if x = 0 then Num 0
     else (let a = \<bar>x\<bar>;
               q = max (floor_log2 a) (- 1022) - 52;
               v = of_int (round_half_even (a / pow2 q)) * pow2 q
           in if 2 ^ 1024 \<le> v then (if 0 < x then PosInfinity else NegInfinity)
              else Num (if 0 < x then v else - v)))"

text \<open>
  The operators \<open>+\<close>, \<open>-\<close>, \<open>*\<close>, \<open>/\<close> and \<open><\<close> on numbers: the exact result
  rounded, and the rules of IEEE-754 for the infinities and \<open>NaN\<close>. A zero divisor is
  taken as the positive zero.
\<close>

fun is_negative :: "jsnum \<Rightarrow> bool" where
  "is_negative (Num a) = (a < 0)"
| "is_negative NegInfinity = True"
| "is_negative x = False"

definition infinity_of :: "bool \<Rightarrow> jsnum" where
  "infinity_of negative = (if negative then NegInfinity else PosInfinity)"

fun js_plus :: "jsnum \<Rightarrow> jsnum \<Rightarrow> jsnum" where
  "js_plus (Num a) (Num b) = round_double (a + b)"
| "js_plus NaN y = NaN"
| "js_plus x NaN = NaN"
| "js_plus (Num a) y = y"
| "js_plus x (Num b) = x"
| "js_plus x y = (if x = y then x else NaN)"

fun js_minus :: "jsnum \<Rightarrow> jsnum \<Rightarrow> jsnum" where
  "js_minus (Num a) (Num b) = round_double (a - b)"
| "js_minus NaN y = NaN"
| "js_minus x NaN = NaN"
| "js_minus (Num a) y = infinity_of (\<not> is_negative y)"
| "js_minus x (Num b) = x"
| "js_minus x y = (if x = y then NaN else x)"

fun js_times :: "jsnum \<Rightarrow> jsnum \<Rightarrow> jsnum" where
  "js_times (Num a) (Num b) = round_double (a * b)"
| "js_times NaN y = NaN"
| "js_times x NaN = NaN"
| "js_times x y =
     (if x = Num 0 \<or> y = Num 0 then NaN else infinity_of (is_negative x \<noteq> is_negative y))"

fun js_divide :: "jsnum \<Rightarrow> jsnum \<Rightarrow> jsnum" where
  "js_divide (Num a) (Num b) =
     (if b \<noteq> 0 then round_double (a / b) else if a = 0 then NaN else infinity_of (a < 0))"
| "js_divide NaN y = NaN"
| "js_divide x NaN = NaN"
| "js_divide (Num a) y = Num 0"
| "js_divide x (Num b) = infinity_of (is_negative x \<noteq> (b < 0))"
| "js_divide x y = NaN"

fun js_less :: "jsnum \<Rightarrow> jsnum \<Rightarrow> bool" where
  "js_less (Num a) (Num b) = (a < b)"
| "js_less NaN y = False"
| "js_less x NaN = False"
| "js_less x PosInfinity = (x \<noteq> PosInfinity)"
| "js_less NegInfinity y = (y \<noteq> NegInfinity)"
| "js_less x y = False"

text \<open>
  \<open>Math.min(...xs)\<close> and \<open>Math.max(...xs)\<close>: the lowest so far starts at
  \<open>Infinity\<close>, the highest at \<open>-Infinity\<close>, and a \<open>NaN\<close> among the numbers is the
  result.
\<close>

definition Math_min :: "jsnum list \<Rightarrow> jsnum" where
  "Math_min xs =
    foldl (\<lambda>lowest number. if lowest = NaN \<or> number = NaN then NaN
                            else if js_less number lowest then number else lowest)
      PosInfinity xs"

definition Math_max :: "jsnum list \<Rightarrow> jsnum" where
  "Math_max xs =
    foldl (\<lambda>highest number. if highest = NaN \<or> number = NaN then NaN
                             else if js_less highest number then number else highest)
      NegInfinity xs"

text \<open>The decimal digits of a natural number.\<close>

definition digit_char :: "nat \<Rightarrow> char" where
  "digit_char d = ''0123456789'' ! d"

fun show_nat :: "nat \<Rightarrow> string" where
  "show_nat n = (if n < 10 then [digit_char n] else show_nat (n div 10) @ [digit_char (n mod 10)])"

declare show_nat.simps [simp del]

text \<open>
  \<open>Number::toString\<close> of a finite number from \<open>10\<^sup>2\<^sup>1\<close> on, which is written with an
  exponent: the digits \<open>s\<close>, as few as possible (\<open>k\<close> of them, at most 17), and the
  \<open>n\<close> for which \<open>s \<times> 10\<^sup>n\<^sup>-\<^sup>k\<close> rounds to the number; of several \<open>s\<close> the one
  nearest to the number, the even one of two.
\<close>

definition digit_candidates :: "rat \<Rightarrow> nat \<Rightarrow> (nat \<times> nat) list" where
  "digit_candidates x k =
    (let D = length (show_nat (nat \<lfloor>x\<rfloor>))
     in filter (\<lambda>(s, n). 10 ^ (k - 1) \<le> s \<and> s < 10 ^ k
                          \<and> round_double (of_nat s * 10 ^ (n - k)) = Num x)
          (concat (map (\<lambda>n. [(nat \<lfloor>x / 10 ^ (n - k)\<rfloor>, n), (nat \<lfloor>x / 10 ^ (n - k)\<rfloor> + 1, n)])
                     [D, D + 1])))"

definition nearer :: "rat \<Rightarrow> nat \<Rightarrow> nat \<times> nat \<Rightarrow> nat \<times> nat \<Rightarrow> nat \<times> nat" where
  "nearer x k c best =
    (let dc = \<bar>of_nat (fst c) * 10 ^ (snd c - k) - x\<bar>;
         db = \<bar>of_nat (fst best) * 10 ^ (snd best - k) - x\<bar>
     in if dc < db \<or> (dc = db \<and> even (fst c)) then c else best)"

fun shortest_digits :: "rat \<Rightarrow> nat \<Rightarrow> nat \<Rightarrow> (nat \<times> nat) option" where
  "shortest_digits x k 0 = None"
| "shortest_digits x k (Suc more) =
     (case digit_candidates x k of
        [] \<Rightarrow> shortest_digits x (Suc k) more
      | c # cs \<Rightarrow> Some (fold (nearer x k) cs c))"

definition Number_toString :: "rat \<Rightarrow> string" where
  "Number_toString x =
    (case shortest_digits x 1 17 of
       None \<Rightarrow> []
     | Some (s, n) \<Rightarrow>
         (let digits = show_nat s
          in take 1 digits @ (if 1 < length digits then ''.'' @ drop 1 digits else [])
             @ ''e+'' @ show_nat (n - 1)))"

text \<open>
  \<open>Number.prototype.toFixed\<close> with \<open>f\<close> fraction digits, as ECMA-262 has it. Below
  \<open>10\<^sup>2\<^sup>1\<close>, \<open>n\<close> is the integer nearest to \<open>x \<times> 10\<^sup>f\<close>, the larger one of two;
  its digits are padded with zeros to \<open>f + 1\<close> places and the point goes before the last
  \<open>f\<close>. From \<open>10\<^sup>2\<^sup>1\<close> on the number is written as \<open>Number::toString\<close> writes it,
  and a number that is not finite by its name.
\<close>

definition fixed_digits :: "nat \<Rightarrow> rat \<Rightarrow> string" where
  "fixed_digits f a =
    (let n = nat \<lfloor>a * 10 ^ f + 1 / 2\<rfloor>;
         m = show_nat n;
         m' = replicate (f + 1 - length m) (CHR ''0'') @ m;
         k = length m'
     in if f = 0 then m' else take (k - f) m' @ ''.'' @ drop (k - f) m')"

definition toFixed :: "nat \<Rightarrow> jsnum \<Rightarrow> string" where
  "toFixed f v =
    (case v of
       NaN \<Rightarrow> ''NaN''
     | PosInfinity \<Rightarrow> ''Infinity''
     | NegInfinity \<Rightarrow> ''-Infinity''
     | Num x \<Rightarrow>
         (if x < 0 then ''-'' else [])
         @ (if 10 ^ 21 \<le> \<bar>x\<bar> then Number_toString \<bar>x\<bar> else fixed_digits f \<bar>x\<bar>))"

section \<open>JavaScript values, thrown errors and the JSON text of an envelope\<close>

text \<open>
  The values the tool handlers put into their result objects. A \<open>VDate\<close> carries the
  time value of a valid \<open>Date\<close> (milliseconds since the epoch); an object keeps its
  properties in the order of the object literal.
\<close>

datatype jsval =
    VUndefined
  | VNull
  | VBool bool
  | VNum jsnum
  | VStr string
  | VDate int
  | VArr "jsval list"
  | VObj "(string \<times> jsval) list"

text \<open>The tree that \<open>JSON.stringify\<close> writes out (its layout with a 2-space indent is not modelled).\<close>

datatype json =
    JNull
  | JBool bool
  | JNum rat
  | JStr string
  | JArr "json list"
  | JObj "(string \<times> json) list"

text \<open>
  An error object with its \<open>name\<close> and its \<open>message\<close> (an \<open>Error\<close>, a
  \<open>TypeError\<close>, a service error of the AWS SDK).
\<close>

datatype js_error = JsError string string

text \<open>\<open>Error.prototype.toString\<close>, which a template literal applies to an error object.\<close>

fun error_toString :: "js_error \<Rightarrow> string" where
  "error_toString (JsError n m) =
     (if n = [] then m else if m = [] then n else n @ '': '' @ m)"

fun error_message :: "js_error \<Rightarrow> string" where
  "error_message (JsError n m) = m"

text \<open>
  What the tool call handler can be rejected with: an \<open>McpError\<close> of the protocol SDK
  (its code and the message given to its constructor), or any other error object. A
  promise that settles is a sum: \<open>Inl\<close> the rejection, \<open>Inr\<close> the value.
\<close>

datatype ErrorCode =
    ConnectionClosed | RequestTimeout | ParseError | InvalidRequest
  | MethodNotFound | InvalidParams | InternalError

datatype thrown = McpError ErrorCode string | OtherError js_error

record text_content =
  c_type :: string
  c_text :: json

record tool_result =
  content :: "text_content list"

text \<open>The envelope every tool handler returns: one text block holding the JSON of \<open>j\<close>.\<close>

definition envelope :: "json \<Rightarrow> tool_result" where
  "envelope j = \<lparr>content = [\<lparr>c_type = ''text'', c_text = j\<rparr>]\<rparr>"

section \<open>Dates\<close>

text \<open>
  A valid \<open>Date\<close> is its time value, the milliseconds since 1970-01-01T00:00:00Z. The
  calendar follows ECMA-262: \<open>DayFromYear\<close>, the year of a day number (the largest
  year that starts no later than the day), the month and the day of the month from the
  day within the year, with \<open>L\<close> the leap-year flag (0 or 1) and months counted from 0.
\<close>

definition msPerDay :: int where
  "msPerDay = 86400000"

definition DayFromYear :: "int \<Rightarrow> int" where
  "DayFromYear y = 365 * (y - 1970) + (y - 1969) div 4 - (y - 1901) div 100 + (y - 1601) div 400"

definition InLeapYear :: "int \<Rightarrow> int" where
  "InLeapYear y =
    (if y mod 4 \<noteq> 0 then 0 else if y mod 100 \<noteq> 0 then 1 else if y mod 400 \<noteq> 0 then 0 else 1)"

definition YearFromDay :: "int \<Rightarrow> int" where
  "YearFromDay n =
    (let y = 1970 + (400 * n) div 146097
     in if n < DayFromYear y then y - 1 else if DayFromYear (y + 1) \<le> n then y + 1 else y)"

definition month_start :: "int \<Rightarrow> nat \<Rightarrow> int" where
  "month_start L m =
    [0, 31, 59 + L, 90 + L, 120 + L, 151 + L, 181 + L, 212 + L, 243 + L, 273 + L,
     304 + L, 334 + L] ! m"

definition MonthFromDay :: "int \<Rightarrow> int \<Rightarrow> nat" where
  "MonthFromDay d L =
    (if d < 31 then 0 else if d < 59 + L then 1 else if d < 90 + L then 2
     else if d < 120 + L then 3 else if d < 151 + L then 4 else if d < 181 + L then 5
     else if d < 212 + L then 6 else if d < 243 + L then 7 else if d < 273 + L then 8
     else if d < 304 + L then 9 else if d < 334 + L then 10 else 11)"

definition DaysInMonth :: "int \<Rightarrow> nat \<Rightarrow> int" where
  "DaysInMonth L m = [31, 28 + L, 31, 30, 31, 30, 31, 31, 30, 31, 30, 31] ! m"

definition MakeDay :: "int \<Rightarrow> nat \<Rightarrow> int \<Rightarrow> int" where
  "MakeDay y m d = DayFromYear y + month_start (InLeapYear y) m + d - 1"

definition MakeTime :: "int \<Rightarrow> int \<Rightarrow> int \<Rightarrow> int \<Rightarrow> int" where
  "MakeTime h mi s ms = h * 3600000 + mi * 60000 + s * 1000 + ms"

text \<open>
  \<open>Date.prototype.toISOString\<close>: the year in four digits from 0000 to 9999 and in
  six digits with a sign outside, then month, day, hours, minutes, seconds and
  milliseconds of the time in UTC.
\<close>

definition pad2 :: "nat \<Rightarrow> string" where
  "pad2 n = [digit_char (n div 10 mod 10), digit_char (n mod 10)]"

definition pad3 :: "nat \<Rightarrow> string" where
  "pad3 n = pad2 (n div 10) @ [digit_char (n mod 10)]"

definition pad4 :: "nat \<Rightarrow> string" where
  "pad4 n = pad3 (n div 10) @ [digit_char (n mod 10)]"

definition pad6 :: "nat \<Rightarrow> string" where
  "pad6 n = pad4 (n div 100) @ pad2 n"

definition year_string :: "int \<Rightarrow> string" where
  "year_string y =
    (if 0 \<le> y \<and> y \<le> 9999 then pad4 (nat y)
     else (if y < 0 then ''-'' else ''+'') @ pad6 (nat \<bar>y\<bar>))"

definition toISOString :: "int \<Rightarrow> string" where
  "toISOString t =
    (let day = t div msPerDay;
         tod = t mod msPerDay;
         y = YearFromDay day;
         dy = day - DayFromYear y;
         L = InLeapYear y;
         m = MonthFromDay dy L;
         d = dy - month_start L m + 1
     in year_string y @ ''-'' @ pad2 (m + 1) @ ''-'' @ pad2 (nat d) @ ''T''
        @ pad2 (nat (tod div 3600000)) @ '':'' @ pad2 (nat (tod div 60000 mod 60)) @ '':''
        @ pad2 (nat (tod div 1000 mod 60)) @ ''.'' @ pad3 (nat (tod mod 1000)) @ ''Z'')"

text \<open>
  The host of the program: the offset of its local time from UTC at a local time value
  (in milliseconds), and what the engine's \<open>Date.parse\<close> makes of a string that is
  not of the date-time string format of ECMA-262, which the standard leaves to the
  implementation (\<open>None\<close> is \<open>NaN\<close>).
\<close>

record host =
  h_LocalTZA :: "int \<Rightarrow> int"
  h_parse :: "string \<Rightarrow> int option"

text \<open>\<open>TimeClip\<close>: a time value is at most \<open>8.64 \<times> 10\<^sup>1\<^sup>5\<close> from the epoch.\<close>

definition TimeClip :: "int \<Rightarrow> int option" where
  "TimeClip t = (if \<bar>t\<bar> \<le> 8640000000000000 then Some t else None)"

text \<open>
  \<open>new Date(string)\<close>. A string of the date-time string format is read as the format
  says: a date \<open>YYYY\<close>, \<open>YYYY-MM\<close> or \<open>YYYY-MM-DD\<close>, the year in four digits or
  in six digits with a sign (not \<open>-000000\<close>); then nothing, and the date is midnight
  UTC, or \<open>T\<close> and a time \<open>HH:mm\<close>, \<open>HH:mm:ss\<close> or \<open>HH:mm:ss.sss\<close>,
  followed by \<open>Z\<close>, by an offset \<open>+HH:mm\<close> or \<open>-HH:mm\<close>, or by nothing, and
  then the time is local time. As on Node, a day of the month up to 31 is taken in
  every month and counted on into the next month, and a fraction of the second may have
  from one to nine digits, of which the first three count. Every other string is left to
  the host's parser.
\<close>

definition digit_val :: "char \<Rightarrow> nat option" where
  "digit_val c = map_of (zip ''0123456789'' [0, 1, 2, 3, 4, 5, 6, 7, 8, 9]) c"

fun digits_from :: "nat \<Rightarrow> string \<Rightarrow> nat option" where
  "digits_from acc [] = Some acc"
| "digits_from acc (c # cs) =
     (case digit_val c of None \<Rightarrow> None | Some d \<Rightarrow> digits_from (10 * acc + d) cs)"

definition digits_val :: "string \<Rightarrow> nat option" where
  "digits_val s = (if s = [] then None else digits_from 0 s)"

definition two_digits :: "string \<Rightarrow> nat \<Rightarrow> nat option" where
  "two_digits s i = (if i + 2 \<le> length s then digits_val (take 2 (drop i s)) else None)"

text \<open>The year and the length of its text.\<close>

definition parse_year :: "string \<Rightarrow> (int \<times> nat) option" where
  "parse_year s =
    (case (if 4 \<le> length s then digits_val (take 4 s) else None) of
       Some y \<Rightarrow> Some (int y, 4)
     | None \<Rightarrow>
         if 7 \<le> length s \<and> (s ! 0 = CHR ''+'' \<or> s ! 0 = CHR ''-'') then
           (case digits_val (take 6 (drop 1 s)) of
              None \<Rightarrow> None
            | Some y \<Rightarrow>
                if s ! 0 = CHR ''-'' then (if y = 0 then None else Some (- int y, 7))
                else Some (int y, 7))
         else None)"

definition calendar_day :: "int \<Rightarrow> nat \<Rightarrow> nat \<Rightarrow> int option" where
  "calendar_day y m d =
    (if 1 \<le> m \<and> m \<le> 12 \<and> 1 \<le> d \<and> d \<le> 31 then Some (MakeDay y (m - 1) (int d)) else None)"

text \<open>The day number of the date at the start of the string, and the length of its text.\<close>

definition parse_date :: "string \<Rightarrow> (int \<times> nat) option" where
  "parse_date s =
    (case parse_year s of
       None \<Rightarrow> None
     | Some (y, n) \<Rightarrow>
         if n < length s \<and> s ! n = CHR ''-'' then
           (case two_digits s (n + 1) of
              None \<Rightarrow> None
            | Some m \<Rightarrow>
                if n + 3 < length s \<and> s ! (n + 3) = CHR ''-'' then
                  (case two_digits s (n + 4) of
                     None \<Rightarrow> None
                   | Some d \<Rightarrow> map_option (\<lambda>day. (day, n + 6)) (calendar_day y m d))
                else map_option (\<lambda>day. (day, n + 3)) (calendar_day y m 1))
         else map_option (\<lambda>day. (day, n)) (calendar_day y 1 1))"

text \<open>The milliseconds of a fraction: its first three digits, zeros where it has fewer.\<close>

definition parse_fraction :: "string \<Rightarrow> nat option" where
  "parse_fraction s =
    (case digits_val s of None \<Rightarrow> None | Some _ \<Rightarrow> digits_val (take 3 (s @ ''00'')))"

definition parse_time :: "string \<Rightarrow> int option" where
  "parse_time s =
    (let n = length s in
     if (n = 5 \<or> n = 8 \<or> (10 \<le> n \<and> n \<le> 18)) \<and> s ! 2 = CHR '':''
        \<and> (if 8 \<le> n then s ! 5 = CHR '':'' else True)
        \<and> (if 10 \<le> n then s ! 8 = CHR ''.'' else True) then
       (case (digits_val (take 2 s), digits_val (take 2 (drop 3 s)),
              if 8 \<le> n then digits_val (take 2 (drop 6 s)) else Some 0,
              if 10 \<le> n then parse_fraction (drop 9 s) else Some 0) of
          (Some h, Some mi, Some sec, Some ms) \<Rightarrow>
            if (h \<le> 23 \<and> mi \<le> 59 \<and> sec \<le> 59) \<or> (h = 24 \<and> mi = 0 \<and> sec = 0 \<and> ms = 0)
            then Some (MakeTime (int h) (int mi) (int sec) (int ms)) else None
        | _ \<Rightarrow> None)
     else None)"

definition parse_zone :: "string \<Rightarrow> int option" where
  "parse_zone s =
    (if s = ''Z'' then Some 0
     else if length s = 6 \<and> (s ! 0 = CHR ''+'' \<or> s ! 0 = CHR ''-'') \<and> s ! 3 = CHR '':'' then
       (case (digits_val (take 2 (drop 1 s)), digits_val (drop 4 s)) of
          (Some h, Some mi) \<Rightarrow>
            if h \<le> 23 \<and> mi \<le> 59
            then Some ((if s ! 0 = CHR ''-'' then -1 else 1) * (int h * 3600000 + int mi * 60000))
            else None
        | _ \<Rightarrow> None)
     else None)"

text \<open>The length of the zone at the end of what follows the \<open>T\<close>: 1, 6, or 0 for none.\<close>

definition zone_length :: "string \<Rightarrow> nat" where
  "zone_length s =
    (if s \<noteq> [] \<and> last s = CHR ''Z'' then 1
     else if 6 \<le> length s
             \<and> (s ! (length s - 6) = CHR ''+'' \<or> s ! (length s - 6) = CHR ''-'') then 6
     else 0)"

text \<open>The time value the format gives a string, \<open>None\<close> for a string that is not of it.\<close>

definition parse_format :: "host \<Rightarrow> string \<Rightarrow> int option" where
  "parse_format h s =
    (case parse_date s of
       None \<Rightarrow> None
     | Some (day, n) \<Rightarrow>
         if n = length s then Some (day * msPerDay)
         else if s ! n = CHR ''T'' then
           (let rest = drop (n + 1) s; k = length rest - zone_length rest
            in case parse_time (take k rest) of
                 None \<Rightarrow> None
               | Some tm \<Rightarrow>
                   if k = length rest
                   then Some (day * msPerDay + tm - h_LocalTZA h (day * msPerDay + tm))
                   else map_option (\<lambda>offset. day * msPerDay + tm - offset)
                          (parse_zone (drop k rest)))
         else None)"

definition parseDate :: "host \<Rightarrow> string \<Rightarrow> int option" where
  "parseDate h s =
    (case parse_format h s of
       Some t \<Rightarrow> TimeClip t
     | None \<Rightarrow> (case h_parse h s of None \<Rightarrow> None | Some t \<Rightarrow> TimeClip t))"

text \<open>
  The strings \<open>toISOString\<close> emits for the years 0000 to 9999: the form
  \<open>YYYY-MM-DDTHH:mm:ss.sssZ\<close> with a month from 01 to 12, a day that the month of that
  year has, and a time of day from 00:00:00.000 to 23:59:59.999.
\<close>

definition canonical_iso :: "string \<Rightarrow> bool" where
  "canonical_iso s =
    (length s = 24 \<and> s ! 4 = CHR ''-'' \<and> s ! 7 = CHR ''-'' \<and> s ! 10 = CHR ''T''
     \<and> s ! 13 = CHR '':'' \<and> s ! 16 = CHR '':'' \<and> s ! 19 = CHR ''.'' \<and> s ! 23 = CHR ''Z''
     \<and> (case (digits_val (take 4 s), digits_val (take 2 (drop 5 s)),
               digits_val (take 2 (drop 8 s)), digits_val (take 2 (drop 11 s)),
               digits_val (take 2 (drop 14 s)), digits_val (take 2 (drop 17 s)),
               digits_val (take 3 (drop 20 s))) of
           (Some y, Some m, Some d, Some h, Some mi, Some sec, Some ms) \<Rightarrow>
             1 \<le> m \<and> m \<le> 12 \<and> 1 \<le> d \<and> int d \<le> DaysInMonth (InLeapYear (int y)) (m - 1)
             \<and> h \<le> 23 \<and> mi \<le> 59 \<and> sec \<le> 59
         | _ \<Rightarrow> False))"

text \<open>Truthiness, and \<open>a || b\<close> on values.\<close>

fun truthy :: "jsval \<Rightarrow> bool" where
  "truthy VUndefined = False"
| "truthy VNull = False"
| "truthy (VBool b) = b"
| "truthy (VNum (Num r)) = (r \<noteq> 0)"
| "truthy (VNum PosInfinity) = True"
| "truthy (VNum NegInfinity) = True"
| "truthy (VNum NaN) = False"
| "truthy (VStr s) = (s \<noteq> [])"
| "truthy (VDate t) = True"
| "truthy (VArr xs) = True"
| "truthy (VObj fs) = True"

definition js_or :: "jsval \<Rightarrow> jsval \<Rightarrow> jsval" where
  "js_or a b = (if truthy a then a else b)"

text \<open>
  Reading the property \<open>k\<close> of a value: a \<open>TypeError\<close> on \<open>undefined\<close> and
  \<open>null\<close>, the property's value on an object, \<open>undefined\<close> where there is none
  (none of the keys read here is a property of a primitive or of an array).
\<close>

fun get_prop :: "jsval \<Rightarrow> string \<Rightarrow> js_error + jsval" where
  "get_prop VUndefined k =
     Inl (JsError ''TypeError'' (''Cannot read properties of undefined (reading '' @ [CHR 0x27] @ k @ [CHR 0x27] @ '')''))"
| "get_prop VNull k =
     Inl (JsError ''TypeError'' (''Cannot read properties of null (reading '' @ [CHR 0x27] @ k @ [CHR 0x27] @ '')''))"
| "get_prop (VObj fs) k = Inr (case map_of fs k of None \<Rightarrow> VUndefined | Some v \<Rightarrow> v)"
| "get_prop v k = Inr VUndefined"

text \<open>Reading several properties of one value, left to right.\<close>

fun get_props :: "jsval \<Rightarrow> string list \<Rightarrow> js_error + jsval list" where
  "get_props v [] = Inr []"
| "get_props v (k # ks) =
     (case get_prop v k of
        Inl e \<Rightarrow> Inl e
      | Inr x \<Rightarrow> (case get_props v ks of Inl e \<Rightarrow> Inl e | Inr xs \<Rightarrow> Inr (x # xs)))"

section \<open>\<open>JSON.stringify\<close>\<close>

text \<open>
  \<open>to_json\<close> is \<open>JSON.stringify\<close> on a value, \<open>None\<close> where it gives \<open>undefined\<close>.
  A property whose value is \<open>undefined\<close> is left out of its object, an \<open>undefined\<close>
  element of an array is written \<open>null\<close>, a number that is not finite is written
  \<open>null\<close>, and a date is written as its \<open>toISOString\<close>.
\<close>

fun number_json :: "jsnum \<Rightarrow> json" where
  "number_json (Num r) = JNum r"
| "number_json v = JNull"

fun to_json :: "jsval \<Rightarrow> json option"

  and fields_to_json :: "(string \<times> jsval) list \<Rightarrow> (string \<times> json) list"
  and elems_to_json :: "jsval list \<Rightarrow> json list" where
  "to_json VUndefined = None"
| "to_json VNull = Some JNull"
| "to_json (VBool b) = Some (JBool b)"
| "to_json (VNum v) = Some (number_json v)"
| "to_json (VStr s) = Some (JStr s)"
| "to_json (VDate t) = Some (JStr (toISOString t))"
| "to_json (VArr xs) = Some (JArr (elems_to_json xs))"
| "to_json (VObj fs) = Some (JObj (fields_to_json fs))"
| "fields_to_json [] = []"
| "fields_to_json ((k, v) # fs) =
     (case to_json v of None \<Rightarrow> fields_to_json fs | Some j \<Rightarrow> (k, j) # fields_to_json fs)"
| "elems_to_json [] = []"
| "elems_to_json (v # vs) = (case to_json v of None \<Rightarrow> JNull | Some j \<Rightarrow> j) # elems_to_json vs"

text \<open>\<open>JSON.stringify\<close> of an object literal with the properties \<open>fs\<close>, as an envelope.\<close>

definition json_result :: "(string \<times> jsval) list \<Rightarrow> tool_result" where
  "json_result fs = envelope (JObj (fields_to_json fs))"

text \<open>Reading the JSON back: the member \<open>k\<close> of an object, and a path of members.\<close>

fun json_member :: "json \<Rightarrow> string \<Rightarrow> json option" where
  "json_member (JObj fs) k = map_of fs k"
| "json_member j k = None"

fun at_path :: "json \<Rightarrow> string list \<Rightarrow> json option" where
  "at_path j [] = Some j"
| "at_path j (k # ks) = (case json_member j k of None \<Rightarrow> None | Some j' \<Rightarrow> at_path j' ks)"

text \<open>The JSON of the one text block of an envelope.\<close>

definition result_json :: "tool_result \<Rightarrow> json option" where
  "result_json r = (case content r of [c] \<Rightarrow> Some (c_text c) | _ \<Rightarrow> None)"

definition result_at :: "tool_result \<Rightarrow> string list \<Rightarrow> json option" where
  "result_at r path = (case result_json r of None \<Rightarrow> None | Some j \<Rightarrow> at_path j path)"

text \<open>What a run of a tool reports at a path of its envelope, nothing when it threw.\<close>

definition reported :: "'c \<times> (js_error + tool_result) \<Rightarrow> string list \<Rightarrow> json option" where
  "reported run path = (case snd run of Inl e \<Rightarrow> None | Inr r \<Rightarrow> result_at r path)"

text \<open>Optional values of the remote responses, and \<open>x || d\<close> on them.\<close>

definition str_or :: "string option \<Rightarrow> string \<Rightarrow> string" where
  "str_or x d = (case x of None \<Rightarrow> d | Some s \<Rightarrow> if s = [] then d else s)"

definition int_or :: "int option \<Rightarrow> int \<Rightarrow> int" where
  "int_or x d = (case x of None \<Rightarrow> d | Some n \<Rightarrow> if n = 0 then d else n)"

definition num_or :: "jsnum option \<Rightarrow> jsnum \<Rightarrow> jsnum" where
  "num_or x d = (case x of None \<Rightarrow> d | Some v \<Rightarrow> if truthy (VNum v) then v else d)"

definition opt_str :: "string option \<Rightarrow> jsval" where
  "opt_str x = (case x of None \<Rightarrow> VUndefined | Some s \<Rightarrow> VStr s)"

definition opt_num :: "jsnum option \<Rightarrow> jsval" where
  "opt_num x = (case x of None \<Rightarrow> VUndefined | Some v \<Rightarrow> VNum v)"

definition opt_date :: "int option \<Rightarrow> jsval" where
  "opt_date x = (case x of None \<Rightarrow> VUndefined | Some t \<Rightarrow> VDate t)"

definition js_int :: "int \<Rightarrow> jsval" where
  "js_int n = VNum (Num (of_int n))"

text \<open>\<open>x?.toISOString() || ''\<close> on an optional date.\<close>

definition iso_or_empty :: "int option \<Rightarrow> string" where
  "iso_or_empty x = str_or (map_option toISOString x) []"

text \<open>\<open>x || new Date().toISOString()\<close> on an optional date, \<open>now\<close> the current time.\<close>

definition date_or_now :: "int option \<Rightarrow> int \<Rightarrow> jsval" where
  "date_or_now x now = (case x of None \<Rightarrow> VStr (toISOString now) | Some t \<Rightarrow> VDate t)"

section \<open>The tool call handler of the protocol server\<close>

text \<open>The names advertised by the \<open>ListToolsRequestSchema\<close> handler, in its order.\<close>

definition tool_names :: "string list" where
  "tool_names =
    [''list_pipelines'', ''get_pipeline_state'', ''list_pipeline_executions'',
     ''approve_action'', ''retry_stage'', ''trigger_pipeline'',
     ''get_pipeline_execution_logs'', ''stop_pipeline_execution'',
     ''get_pipeline_details'', ''tag_pipeline_resource'',
     ''create_pipeline_webhook'', ''get_pipeline_metrics'']"

text \<open>
  The twelve tool functions, each already applied to the \<open>codePipelineManager\<close>; what
  one of them does with its input is its own business here.
\<close>

record handlers =
  h_listPipelines :: "thrown + tool_result"
  h_getPipelineState :: "jsval \<Rightarrow> thrown + tool_result"
  h_listPipelineExecutions :: "jsval \<Rightarrow> thrown + tool_result"
  h_approveAction :: "jsval \<Rightarrow> thrown + tool_result"
  h_retryStage :: "jsval \<Rightarrow> thrown + tool_result"
  h_triggerPipeline :: "jsval \<Rightarrow> thrown + tool_result"
  h_getPipelineExecutionLogs :: "jsval \<Rightarrow> thrown + tool_result"
  h_stopPipelineExecution :: "jsval \<Rightarrow> thrown + tool_result"
  h_getPipelineDetails :: "jsval \<Rightarrow> thrown + tool_result"
  h_tagPipelineResource :: "jsval \<Rightarrow> thrown + tool_result"
  h_createPipelineWebhook :: "jsval \<Rightarrow> thrown + tool_result"
  h_getPipelineMetrics :: "jsval \<Rightarrow> thrown + tool_result"

record call_params =
  cp_name :: string
  cp_arguments :: "jsval option"

text \<open>The body of the \<open>try\<close>: the \<open>switch\<close> over the tool name.\<close>

definition callTool_switch :: "handlers \<Rightarrow> call_params \<Rightarrow> thrown + tool_result" where
  "callTool_switch hs params =
    (let name = cp_name params;
         input = (case cp_arguments params of None \<Rightarrow> VObj [] | Some a \<Rightarrow> a)
     in if name = ''list_pipelines'' then h_listPipelines hs
        else if name = ''get_pipeline_state'' then h_getPipelineState hs input
        else if name = ''list_pipeline_executions'' then h_listPipelineExecutions hs input
        else if name = ''approve_action'' then h_approveAction hs input
        else if name = ''retry_stage'' then h_retryStage hs input
        else if name = ''trigger_pipeline'' then h_triggerPipeline hs input
        else if name = ''get_pipeline_execution_logs'' then h_getPipelineExecutionLogs hs input
        else if name = ''stop_pipeline_execution'' then h_stopPipelineExecution hs input
        else if name = ''get_pipeline_details'' then h_getPipelineDetails hs input
        else if name = ''tag_pipeline_resource'' then h_tagPipelineResource hs input
        else if name = ''create_pipeline_webhook'' then h_createPipelineWebhook hs input
        else if name = ''get_pipeline_metrics'' then h_getPipelineMetrics hs input
        else Inl (McpError InvalidRequest (''Unknown tool: '' @ name)))"

text \<open>The \<open>catch\<close>: an \<open>McpError\<close> is thrown on, anything else is wrapped into one.\<close>

fun callTool_catch :: "thrown + tool_result \<Rightarrow> thrown + tool_result" where
  "callTool_catch (Inr r) = Inr r"
| "callTool_catch (Inl (McpError c m)) = Inl (McpError c m)"
| "callTool_catch (Inl (OtherError e)) =
     Inl (McpError InternalError (''Tool execution failed: '' @ error_toString e))"

definition callTool :: "handlers \<Rightarrow> call_params \<Rightarrow> thrown + tool_result" where
  "callTool hs params = callTool_catch (callTool_switch hs params)"

text \<open>The handler bound to a name of the table, as the \<open>case\<close> labels bind it.\<close>

definition bound_handler :: "handlers \<Rightarrow> (string \<times> (jsval \<Rightarrow> thrown + tool_result)) list" where
  "bound_handler hs =
    [(''list_pipelines'', \<lambda>_. h_listPipelines hs),
     (''get_pipeline_state'', h_getPipelineState hs),
     (''list_pipeline_executions'', h_listPipelineExecutions hs),
     (''approve_action'', h_approveAction hs),
     (''retry_stage'', h_retryStage hs),
     (''trigger_pipeline'', h_triggerPipeline hs),
     (''get_pipeline_execution_logs'', h_getPipelineExecutionLogs hs),
     (''stop_pipeline_execution'', h_stopPipelineExecution hs),
     (''get_pipeline_details'', h_getPipelineDetails hs),
     (''tag_pipeline_resource'', h_tagPipelineResource hs),
     (''create_pipeline_webhook'', h_createPipelineWebhook hs),
     (''get_pipeline_metrics'', h_getPipelineMetrics hs)]"

section \<open>The \<open>handleTool\<close> method of the HTTP server\<close>

record tool =
  t_name :: string
  t_parameters :: jsval

text \<open>
  The methods of the \<open>CodePipelineController\<close> as \<open>handleTool\<close> calls them: each
  takes the arguments of the call and settles as a promise does.
\<close>

record controller =
  ctl_listPipelines :: "jsval list \<Rightarrow> js_error + jsval"
  ctl_getPipelineState :: "jsval list \<Rightarrow> js_error + jsval"
  ctl_listPipelineExecutions :: "jsval list \<Rightarrow> js_error + jsval"
  ctl_approveAction :: "jsval list \<Rightarrow> js_error + jsval"
  ctl_retryStage :: "jsval list \<Rightarrow> js_error + jsval"
  ctl_triggerPipeline :: "jsval list \<Rightarrow> js_error + jsval"
  ctl_getPipelineExecutionLogs :: "jsval list \<Rightarrow> js_error + jsval"
  ctl_stopPipelineExecution :: "jsval list \<Rightarrow> js_error + jsval"

datatype handle_result = SuccessResult jsval | ErrorResult string string

definition handleTool_names :: "string list" where
  "handleTool_names =
    [''listPipelines'', ''getPipelineState'', ''listPipelineExecutions'', ''approveAction'',
     ''retryStage'', ''triggerPipeline'', ''getPipelineExecutionLogs'', ''stopPipelineExecution'']"

text \<open>One \<open>case\<close> of the switch: read the parameters, call the method, wrap its result.\<close>

definition handleTool_call ::
  "(jsval list \<Rightarrow> js_error + jsval) \<Rightarrow> js_error + jsval list \<Rightarrow> js_error + handle_result" where
  "handleTool_call method args =
    (case args of
       Inl e \<Rightarrow> Inl e
     | Inr xs \<Rightarrow> (case method xs of Inl e \<Rightarrow> Inl e | Inr r \<Rightarrow> Inr (SuccessResult r)))"

definition handleTool_switch :: "controller \<Rightarrow> tool \<Rightarrow> js_error + handle_result" where
  "handleTool_switch c t =
    (let name = t_name t; params = t_parameters t
     in if name = ''listPipelines'' then handleTool_call (ctl_listPipelines c) (Inr [])
        else if name = ''getPipelineState'' then
          handleTool_call (ctl_getPipelineState c) (get_props params [''pipelineName''])
        else if name = ''listPipelineExecutions'' then
          handleTool_call (ctl_listPipelineExecutions c) (get_props params [''pipelineName''])
        else if name = ''approveAction'' then
          handleTool_call (ctl_approveAction c)
            (get_props params [''pipelineName'', ''stageName'', ''actionName'', ''token'',
               ''approved'', ''comments''])
        else if name = ''retryStage'' then
          handleTool_call (ctl_retryStage c)
            (get_props params [''pipelineName'', ''stageName'', ''pipelineExecutionId''])
        else if name = ''triggerPipeline'' then
          handleTool_call (ctl_triggerPipeline c) (get_props params [''pipelineName''])
        else if name = ''getPipelineExecutionLogs'' then
          handleTool_call (ctl_getPipelineExecutionLogs c)
            (get_props params [''pipelineName'', ''executionId''])
        else if name = ''stopPipelineExecution'' then
          handleTool_call (ctl_stopPipelineExecution c)
            (case get_props params [''pipelineName'', ''executionId'', ''reason''] of
               Inl e \<Rightarrow> Inl e
             | Inr xs \<Rightarrow> Inr [xs ! 0, xs ! 1, js_or (xs ! 2) (VStr ''Stopped by user'')])
        else Inr (ErrorResult ''UNKNOWN_TOOL'' (''Unknown tool: '' @ name)))"

text \<open>
  The whole method: the controller is made inside the \<open>try\<close> (\<open>mk\<close> is what
  \<open>require\<close> and \<open>new CodePipelineController()\<close> give: the controller, or the
  error thrown), and the \<open>catch\<close> turns every error into an error result.
\<close>

definition handleTool_catch :: "js_error \<Rightarrow> handle_result" where
  "handleTool_catch e =
    ErrorResult ''INTERNAL_SERVER_ERROR''
      (if error_message e = [] then ''Internal server error'' else error_message e)"

definition handleTool :: "js_error + controller \<Rightarrow> tool \<Rightarrow> handle_result" where
  "handleTool mk t =
    (case mk of
       Inl e \<Rightarrow> handleTool_catch e
     | Inr c \<Rightarrow> (case handleTool_switch c t of Inl e \<Rightarrow> handleTool_catch e | Inr r \<Rightarrow> r))"

text \<open>
  The method bound to a name, with the arguments it is given: the properties read from
  the parameters of the tool, as the \<open>case\<close> labels have them.
\<close>

definition stop_arguments :: "jsval \<Rightarrow> js_error + jsval list" where
  "stop_arguments params =
    (case get_props params [''pipelineName'', ''executionId'', ''reason''] of
       Inl e \<Rightarrow> Inl e
     | Inr xs \<Rightarrow> Inr [xs ! 0, xs ! 1, js_or (xs ! 2) (VStr ''Stopped by user'')])"

definition bound_method ::
  "controller
     \<Rightarrow> (string \<times> ((jsval list \<Rightarrow> js_error + jsval) \<times> (jsval \<Rightarrow> js_error + jsval list))) list" where
  "bound_method c =
    [(''listPipelines'', (ctl_listPipelines c, \<lambda>params. Inr [])),
     (''getPipelineState'',
       (ctl_getPipelineState c, \<lambda>params. get_props params [''pipelineName''])),
     (''listPipelineExecutions'',
       (ctl_listPipelineExecutions c, \<lambda>params. get_props params [''pipelineName''])),
     (''approveAction'',
       (ctl_approveAction c,
        \<lambda>params. get_props params [''pipelineName'', ''stageName'', ''actionName'', ''token'',
                    ''approved'', ''comments''])),
     (''retryStage'',
       (ctl_retryStage c,
        \<lambda>params. get_props params [''pipelineName'', ''stageName'', ''pipelineExecutionId''])),
     (''triggerPipeline'',
       (ctl_triggerPipeline c, \<lambda>params. get_props params [''pipelineName''])),
     (''getPipelineExecutionLogs'',
       (ctl_getPipelineExecutionLogs c,
        \<lambda>params. get_props params [''pipelineName'', ''executionId''])),
     (''stopPipelineExecution'', (ctl_stopPipelineExecution c, stop_arguments))]"

section \<open>The remote API\<close>

text \<open>
  The responses of the pipeline API, as the AWS SDK types them: every member is
  optional. A member of type \<open>Date\<close> is a time value; a member the tools only copy is
  kept as the value it is.
\<close>

record PipelineSummary =
  ps_name :: "string option"
  ps_version :: "int option"
  ps_created :: "int option"
  ps_updated :: "int option"

record ListPipelinesOutput =
  lp_pipelines :: "PipelineSummary list option"

record TransitionState =
  ts_enabled :: "bool option"
  ts_lastChangedBy :: "string option"
  ts_lastChangedAt :: "int option"
  ts_disabledReason :: "string option"

record StageExecution =
  se_pipelineExecutionId :: "string option"
  se_status :: "string option"

record ErrorDetails =
  ed_code :: "string option"
  ed_message :: "string option"

record ActionExecution =
  ae_status :: "string option"
  ae_summary :: "string option"
  ae_lastStatusChange :: "int option"
  ae_token :: "string option"
  ae_externalExecutionId :: "string option"
  ae_externalExecutionUrl :: "string option"
  ae_errorDetails :: "ErrorDetails option"

record ActionRevision =
  ar_revisionId :: "string option"
  ar_revisionChangeId :: "string option"
  ar_created :: "int option"

record ActionState =
  as_actionName :: "string option"
  as_currentRevision :: "ActionRevision option"
  as_latestExecution :: "ActionExecution option"
  as_entityUrl :: "string option"

record StageState =
  ss_stageName :: "string option"
  ss_inboundTransitionState :: "TransitionState option"
  ss_actionStates :: "ActionState list option"
  ss_latestExecution :: "StageExecution option"

record GetPipelineStateOutput =
  gps_pipelineName :: "string option"
  gps_pipelineVersion :: "int option"
  gps_stageStates :: "StageState list option"
  gps_created :: "int option"
  gps_updated :: "int option"

record SourceRevision =
  sr_actionName :: "string option"
  sr_revisionId :: "string option"
  sr_revisionSummary :: "string option"
  sr_revisionUrl :: "string option"

record PipelineExecutionSummary =
  pes_pipelineExecutionId :: "string option"
  pes_status :: "string option"
  pes_startTime :: "int option"
  pes_lastUpdateTime :: "int option"
  pes_sourceRevisions :: "SourceRevision list option"

record ListPipelineExecutionsOutput =
  lpe_pipelineExecutionSummaries :: "PipelineExecutionSummary list option"

record ActionDeclaration =
  ad_name :: jsval
  ad_actionTypeId :: jsval
  ad_runOrder :: jsval
  ad_configuration :: jsval
  ad_outputArtifacts :: jsval
  ad_inputArtifacts :: jsval
  ad_region :: jsval
  ad_namespace :: jsval

record StageDeclaration =
  sd_name :: jsval
  sd_actions :: "ActionDeclaration list option"

record PipelineDeclaration =
  pd_name :: "string option"
  pd_roleArn :: "string option"
  pd_artifactStore :: jsval
  pd_stages :: "StageDeclaration list option"
  pd_version :: "int option"

record PipelineMetadata =
  pm_pipelineArn :: "string option"
  pm_created :: "int option"
  pm_updated :: "int option"

record GetPipelineOutput =
  gp_pipeline :: "PipelineDeclaration option"
  gp_metadata :: "PipelineMetadata option"

record ListWebhookItem =
  lwi_url :: "string option"

record PutWebhookOutput =
  pw_webhook :: "ListWebhookItem option"

record Datapoint =
  dp_Timestamp :: "int option"
  dp_Sum :: "jsnum option"
  dp_Average :: "jsnum option"
  dp_Minimum :: "jsnum option"
  dp_Maximum :: "jsnum option"

record GetMetricStatisticsOutput =
  gms_Datapoints :: "Datapoint list option"

text \<open>The requests the tools send. A date of a request is \<open>None\<close> when it is an invalid date.\<close>

record TagResourceInput =
  tr_resourceArn :: string
  tr_tags :: "(string \<times> string) list"

record StopPipelineExecutionInput =
  sp_pipelineName :: string
  sp_pipelineExecutionId :: string
  sp_reason :: string
  sp_abandon :: bool

record RetryStageExecutionInput =
  rs_pipelineName :: string
  rs_stageName :: string
  rs_pipelineExecutionId :: string
  rs_retryMode :: string

record WebhookFilterRule =
  wf_jsonPath :: string
  wf_matchEquals :: "string option"

record WebhookAuthConfiguration =
  wa_SecretToken :: "string option"
  wa_AllowedIpRange :: "string option"

record WebhookDefinition =
  wd_name :: string
  wd_targetPipeline :: string
  wd_targetAction :: string
  wd_filters :: "WebhookFilterRule list"
  wd_authentication :: string
  wd_authenticationConfiguration :: WebhookAuthConfiguration

record GetMetricStatisticsInput =
  ms_Namespace :: string
  ms_MetricName :: string
  ms_Dimensions :: "(string \<times> string) list"
  ms_StartTime :: "int option"
  ms_EndTime :: "int option"
  ms_Period :: rat
  ms_Statistics :: "string list"

datatype remote_call =
    ListPipelines
  | GetPipelineState string
  | ListPipelineExecutions string "nat option"
  | GetPipeline string
  | GetPipelineExecution string string
  | TagResource TagResourceInput
  | StopPipelineExecution StopPipelineExecutionInput
  | RetryStageExecution RetryStageExecutionInput
  | PutWebhook WebhookDefinition
  | RegisterWebhookWithThirdParty string
  | GetMetricStatistics GetMetricStatisticsInput

text \<open>
  The remote service behind the SDK clients: what each operation answers to a request,
  given the calls made before it (\<open>Inl\<close> is a rejected promise). A tool takes the
  calls made so far and returns them with its own calls added, in the order it made them.
\<close>

record remote =
  r_listPipelines :: "remote_call list \<Rightarrow> js_error + ListPipelinesOutput"
  r_getPipelineState :: "remote_call list \<Rightarrow> string \<Rightarrow> js_error + GetPipelineStateOutput"
  r_listPipelineExecutions ::
    "remote_call list \<Rightarrow> string \<Rightarrow> nat option \<Rightarrow> js_error + ListPipelineExecutionsOutput"
  r_getPipeline :: "remote_call list \<Rightarrow> string \<Rightarrow> js_error + GetPipelineOutput"
  r_getPipelineExecution :: "remote_call list \<Rightarrow> string \<Rightarrow> string \<Rightarrow> js_error + unit"
  r_tagResource :: "remote_call list \<Rightarrow> TagResourceInput \<Rightarrow> js_error + unit"
  r_stopPipelineExecution :: "remote_call list \<Rightarrow> StopPipelineExecutionInput \<Rightarrow> js_error + unit"
  r_retryStageExecution :: "remote_call list \<Rightarrow> RetryStageExecutionInput \<Rightarrow> js_error + unit"
  r_putWebhook :: "remote_call list \<Rightarrow> WebhookDefinition \<Rightarrow> js_error + PutWebhookOutput"
  r_registerWebhookWithThirdParty :: "remote_call list \<Rightarrow> string \<Rightarrow> js_error + unit"
  r_getMetricStatistics ::
    "remote_call list \<Rightarrow> GetMetricStatisticsInput \<Rightarrow> js_error + GetMetricStatisticsOutput"

section \<open>The tools\<close>

text \<open>
  Each tool is a function of the remote service \<open>rm\<close> and the calls made so far; it
  returns the calls with its own added, and the envelope or the error its promise settles
  with. \<open>now\<close> is the time at which the tool runs, \<open>h\<close> the host it runs on.
\<close>

subsection \<open>\<open>listPipelines\<close>\<close>



subsection \<open>\<open>getPipelineState\<close>\<close>

definition transition_state_js :: "TransitionState option \<Rightarrow> jsval" where
  "transition_state_js x =
    (case x of
       None \<Rightarrow> VUndefined
     | Some t \<Rightarrow>
         VObj [(''enabled'', VBool (case ts_enabled t of None \<Rightarrow> False | Some b \<Rightarrow> b)),
               (''lastChangedBy'', opt_str (ts_lastChangedBy t)),
               (''lastChangedAt'', opt_date (ts_lastChangedAt t)),
               (''disabledReason'', opt_str (ts_disabledReason t))])"

definition stage_execution_js :: "StageExecution option \<Rightarrow> jsval" where
  "stage_execution_js x =
    (case x of
       None \<Rightarrow> VUndefined
     | Some e \<Rightarrow>
         VObj [(''pipelineExecutionId'', VStr (str_or (se_pipelineExecutionId e) [])),
               (''status'', VStr (str_or (se_status e) []))])"

definition error_details_js :: "ErrorDetails option \<Rightarrow> jsval" where
  "error_details_js x =
    (case x of
       None \<Rightarrow> VUndefined
     | Some d \<Rightarrow>
         VObj [(''code'', VStr (str_or (ed_code d) [])),
               (''message'', VStr (str_or (ed_message d) []))])"

definition action_execution_js :: "int \<Rightarrow> ActionExecution option \<Rightarrow> jsval" where
  "action_execution_js now x =
    (case x of
       None \<Rightarrow> VUndefined
     | Some e \<Rightarrow>
         VObj [(''status'', VStr (str_or (ae_status e) [])),
               (''summary'', opt_str (ae_summary e)),
               (''lastStatusChange'', date_or_now (ae_lastStatusChange e) now),
               (''token'', opt_str (ae_token e)),
               (''externalExecutionId'', opt_str (ae_externalExecutionId e)),
               (''externalExecutionUrl'', opt_str (ae_externalExecutionUrl e)),
               (''errorDetails'', error_details_js (ae_errorDetails e))])"

definition action_revision_js :: "int \<Rightarrow> ActionRevision option \<Rightarrow> jsval" where
  "action_revision_js now x =
    (case x of
       None \<Rightarrow> VUndefined
     | Some r \<Rightarrow>
         VObj [(''revisionId'', VStr (str_or (ar_revisionId r) [])),
               (''revisionChangeId'', VStr (str_or (ar_revisionChangeId r) [])),
               (''created'', date_or_now (ar_created r) now)])"

definition action_state_js :: "int \<Rightarrow> ActionState \<Rightarrow> jsval" where
  "action_state_js now a =
    VObj [(''actionName'', VStr (str_or (as_actionName a) [])),
          (''currentRevision'', action_revision_js now (as_currentRevision a)),
          (''latestExecution'', action_execution_js now (as_latestExecution a)),
          (''entityUrl'', opt_str (as_entityUrl a))]"

definition stage_state_js :: "int \<Rightarrow> StageState \<Rightarrow> jsval" where
  "stage_state_js now stage =
    VObj [(''stageName'', VStr (str_or (ss_stageName stage) [])),
          (''inboundTransitionState'', transition_state_js (ss_inboundTransitionState stage)),
          (''actionStates'',
            VArr (map (action_state_js now)
                    (case ss_actionStates stage of None \<Rightarrow> [] | Some as \<Rightarrow> as))),
          (''latestExecution'', stage_execution_js (ss_latestExecution stage))]"

definition pipeline_state_js :: "int \<Rightarrow> GetPipelineStateOutput \<Rightarrow> jsval" where
  "pipeline_state_js now response =
    VObj [(''pipelineName'', VStr (str_or (gps_pipelineName response) [])),
          (''pipelineVersion'', js_int (int_or (gps_pipelineVersion response) 0)),
          (''stageStates'',
            VArr (case gps_stageStates response of None \<Rightarrow> []
                  | Some ss \<Rightarrow> map (stage_state_js now) ss)),
          (''created'', VStr (iso_or_empty (gps_created response))),
          (''updated'', VStr (iso_or_empty (gps_updated response)))]"

definition getPipelineState ::
  "remote \<Rightarrow> int \<Rightarrow> remote_call list \<Rightarrow> string
     \<Rightarrow> remote_call list \<times> (js_error + tool_result)" where
  "getPipelineState rm now calls pipelineName =
    (calls @ [GetPipelineState pipelineName],
     case r_getPipelineState rm calls pipelineName of
       Inl e \<Rightarrow> Inl e
     | Inr response \<Rightarrow> Inr (json_result [(''pipelineState'', pipeline_state_js now response)]))"

subsection \<open>\<open>listPipelineExecutions\<close>\<close>




subsection \<open>\<open>getPipelineDetails\<close>\<close>





subsection \<open>\<open>retryStage\<close> and the service's \<open>retryStageExecution\<close>\<close>

record RetryStageRequest =
  rq_pipelineName :: string
  rq_stageName :: string
  rq_pipelineExecutionId :: string

definition retry_params :: "RetryStageRequest \<Rightarrow> RetryStageExecutionInput" where
  "retry_params request =
    \<lparr>rs_pipelineName = rq_pipelineName request,
     rs_stageName = rq_stageName request,
     rs_pipelineExecutionId = rq_pipelineExecutionId request,
     rs_retryMode = ''FAILED_ACTIONS''\<rparr>"

definition retryStage ::
  "remote \<Rightarrow> remote_call list \<Rightarrow> RetryStageRequest
     \<Rightarrow> remote_call list \<times> (js_error + tool_result)" where
  "retryStage rm calls input =
    (calls @ [RetryStageExecution (retry_params input)],
     case r_retryStageExecution rm calls (retry_params input) of
       Inl e \<Rightarrow> Inl e
     | Inr _ \<Rightarrow> Inr (json_result [(''message'', VStr ''Stage retry initiated successfully'')]))"

text \<open>The service method logs an error and throws it on.\<close>

definition retryStageExecution ::
  "remote \<Rightarrow> remote_call list \<Rightarrow> RetryStageRequest \<Rightarrow> remote_call list \<times> (js_error + unit)" where
  "retryStageExecution rm calls request =
    (calls @ [RetryStageExecution (retry_params request)],
     case r_retryStageExecution rm calls (retry_params request) of
       Inl e \<Rightarrow> Inl e
     | Inr _ \<Rightarrow> Inr ())"

subsection \<open>\<open>stopPipelineExecution\<close>\<close>

record StopInput =
  si_pipelineName :: string
  si_executionId :: string
  si_reason :: "string option"

definition stop_params :: "StopInput \<Rightarrow> StopPipelineExecutionInput" where
  "stop_params input =
    \<lparr>sp_pipelineName = si_pipelineName input,
     sp_pipelineExecutionId = si_executionId input,
     sp_reason = str_or (si_reason input) ''Stopped by user'',
     sp_abandon = False\<rparr>"

definition stopPipelineExecution ::
  "remote \<Rightarrow> remote_call list \<Rightarrow> StopInput \<Rightarrow> remote_call list \<times> (js_error + tool_result)" where
  "stopPipelineExecution rm calls input =
    (calls @ [StopPipelineExecution (stop_params input)],
     case r_stopPipelineExecution rm calls (stop_params input) of
       Inl e \<Rightarrow> Inl e
     | Inr _ \<Rightarrow>
         Inr (json_result [(''message'', VStr ''Pipeline execution stopped successfully'')]))"

text \<open>
  The service method has the reason as a parameter with a default value, which stands in
  only for an argument that is \<open>undefined\<close>.
\<close>

definition service_stop_params :: "string \<Rightarrow> string \<Rightarrow> string option \<Rightarrow> StopPipelineExecutionInput" where
  "service_stop_params pipelineName executionId reason =
    \<lparr>sp_pipelineName = pipelineName,
     sp_pipelineExecutionId = executionId,
     sp_reason = (case reason of None \<Rightarrow> ''Stopped by user'' | Some r \<Rightarrow> r),
     sp_abandon = False\<rparr>"

definition service_stopPipelineExecution ::
  "remote \<Rightarrow> remote_call list \<Rightarrow> string \<Rightarrow> string \<Rightarrow> string option
     \<Rightarrow> remote_call list \<times> (js_error + unit)" where
  "service_stopPipelineExecution rm calls pipelineName executionId reason =
    (calls @ [StopPipelineExecution (service_stop_params pipelineName executionId reason)],
     case r_stopPipelineExecution rm calls (service_stop_params pipelineName executionId reason) of
       Inl e \<Rightarrow> Inl e
     | Inr _ \<Rightarrow> Inr ())"

subsection \<open>\<open>tagPipelineResource\<close>\<close>

record TagInput =
  ti_pipelineName :: string
  ti_tags :: "(string \<times> string) list"

definition tag_js :: "string \<times> string \<Rightarrow> jsval" where
  "tag_js tag = VObj [(''key'', VStr (fst tag)), (''value'', VStr (snd tag))]"

definition tagPipelineResource ::
  "remote \<Rightarrow> remote_call list \<Rightarrow> TagInput \<Rightarrow> remote_call list \<times> (js_error + tool_result)" where
  "tagPipelineResource rm calls input =
    (let pipelineName = ti_pipelineName input;
         tags = ti_tags input;
         calls1 = calls @ [GetPipeline pipelineName]
     in case r_getPipeline rm calls pipelineName of
          Inl e \<Rightarrow> (calls1, Inl e)
        | Inr pipelineResponse \<Rightarrow>
            (case (case gp_metadata pipelineResponse of None \<Rightarrow> None
                   | Some m \<Rightarrow> pm_pipelineArn m) of
               None \<Rightarrow>
                 (calls1, Inl (JsError ''Error'' (''Could not find ARN for pipeline: '' @ pipelineName)))
             | Some resourceArn \<Rightarrow>
                 if resourceArn = [] then
                   (calls1,
                    Inl (JsError ''Error'' (''Could not find ARN for pipeline: '' @ pipelineName)))
                 else
                   (let params = \<lparr>tr_resourceArn = resourceArn, tr_tags = tags\<rparr>
                    in (calls1 @ [TagResource params],
                        case r_tagResource rm calls1 params of
                          Inl e \<Rightarrow> Inl e
                        | Inr _ \<Rightarrow>
                            Inr (json_result
                              [(''message'', VStr ''Pipeline resource tagged successfully''),
                               (''resourceArn'', VStr resourceArn),
                               (''tags'', VArr (map tag_js tags))])))))"

subsection \<open>\<open>createPipelineWebhook\<close>\<close>

record WebhookInput =
  wi_pipelineName :: string
  wi_webhookName :: string
  wi_targetAction :: string
  wi_authentication :: string
  wi_authenticationConfiguration :: "WebhookAuthConfiguration option"
  wi_filters :: "WebhookFilterRule list option"

definition webhook_params :: "WebhookInput \<Rightarrow> WebhookDefinition" where
  "webhook_params input =
    \<lparr>wd_name = wi_webhookName input,
     wd_targetPipeline = wi_pipelineName input,
     wd_targetAction = wi_targetAction input,
     wd_filters =
       map (\<lambda>filter. \<lparr>wf_jsonPath = wf_jsonPath filter, wf_matchEquals = wf_matchEquals filter\<rparr>)
         (case wi_filters input of None \<Rightarrow> [] | Some fs \<Rightarrow> fs),
     wd_authentication = wi_authentication input,
     wd_authenticationConfiguration =
       (case wi_authenticationConfiguration input of
          None \<Rightarrow> \<lparr>wa_SecretToken = None, wa_AllowedIpRange = None\<rparr>
        | Some c \<Rightarrow> c)\<rparr>"

text \<open>\<open>String(url)\<close> of the response's webhook, \<open>undefined\<close> without a webhook.\<close>

definition webhook_url_js :: "PutWebhookOutput \<Rightarrow> jsval" where
  "webhook_url_js response =
    (case pw_webhook response of
       None \<Rightarrow> VUndefined
     | Some w \<Rightarrow> VStr (case lwi_url w of None \<Rightarrow> ''undefined'' | Some u \<Rightarrow> u))"

definition createPipelineWebhook ::
  "remote \<Rightarrow> remote_call list \<Rightarrow> WebhookInput \<Rightarrow> remote_call list \<times> (js_error + tool_result)" where
  "createPipelineWebhook rm calls input =
    (let calls1 = calls @ [PutWebhook (webhook_params input)]
     in case r_putWebhook rm calls (webhook_params input) of
          Inl e \<Rightarrow> (calls1, Inl e)
        | Inr response \<Rightarrow>
            (calls1 @ [RegisterWebhookWithThirdParty (wi_webhookName input)],
             case r_registerWebhookWithThirdParty rm calls1 (wi_webhookName input) of
               Inl e \<Rightarrow> Inl e
             | Inr _ \<Rightarrow>
                 Inr (json_result
                   [(''message'', VStr ''Pipeline webhook created and registered successfully''),
                    (''webhookDetails'',
                      VObj [(''name'', VStr (wi_webhookName input)),
                            (''url'', webhook_url_js response),
                            (''targetPipeline'', VStr (wi_pipelineName input)),
                            (''targetAction'', VStr (wi_targetAction input))])])))"

subsection \<open>\<open>getPipelineMetrics\<close>\<close>

record MetricsInput =
  mi_pipelineName :: string
  mi_period :: "rat option"
  mi_startTime :: "string option"
  mi_endTime :: "string option"

definition metric_request ::
  "string \<Rightarrow> string \<Rightarrow> int option \<Rightarrow> int option \<Rightarrow> rat \<Rightarrow> string list
     \<Rightarrow> GetMetricStatisticsInput" where
  "metric_request metricName pipelineName startTime endTime period statistics =
    \<lparr>ms_Namespace = ''AWS/CodePipeline'',
     ms_MetricName = metricName,
     ms_Dimensions = [(''PipelineName'', pipelineName)],
     ms_StartTime = startTime,
     ms_EndTime = endTime,
     ms_Period = period,
     ms_Statistics = statistics\<rparr>"

text \<open>
  \<open>Datapoints?.reduce((sum, point) => sum + (point.Sum || 0), 0) || 0\<close>: the sum of
  the \<open>Sum\<close> statistics, added from the left, 0 without datapoints.
\<close>

definition total_sum :: "GetMetricStatisticsOutput \<Rightarrow> jsnum" where
  "total_sum metric =
    (case gms_Datapoints metric of
       None \<Rightarrow> Num 0
     | Some points \<Rightarrow>
         num_or (Some (foldl (\<lambda>sum point. js_plus sum (num_or (dp_Sum point) (Num 0))) (Num 0) points))
           (Num 0))"

definition success_rate :: "jsnum \<Rightarrow> jsnum \<Rightarrow> jsnum" where
  "success_rate totalSuccessful totalExecutions =
    (if js_less (Num 0) totalExecutions
     then js_times (js_divide totalSuccessful totalExecutions) (Num 100) else Num 0)"

definition datapoint_js :: "Datapoint \<Rightarrow> jsval" where
  "datapoint_js point =
    VObj [(''timestamp'', opt_str (map_option toISOString (dp_Timestamp point))),
          (''average'', opt_num (dp_Average point)),
          (''minimum'', opt_num (dp_Minimum point)),
          (''maximum'', opt_num (dp_Maximum point))]"

definition execution_time_js :: "GetMetricStatisticsOutput \<Rightarrow> jsval" where
  "execution_time_js metric =
    VObj [(''average'',
            VNum (case gms_Datapoints metric of
                    None \<Rightarrow> Num 0
                  | Some points \<Rightarrow>
                      if points = [] then Num 0
                      else js_divide
                             (foldl (\<lambda>sum point. js_plus sum (num_or (dp_Average point) (Num 0)))
                                (Num 0) points)
                             (Num (of_nat (length points))))),
          (''minimum'',
            VNum (Math_min (case gms_Datapoints metric of
                              None \<Rightarrow> [Num 0]
                            | Some points \<Rightarrow>
                                map (\<lambda>point. num_or (dp_Minimum point) (Num 0)) points))),
          (''maximum'',
            VNum (Math_max (case gms_Datapoints metric of
                              None \<Rightarrow> [Num 0]
                            | Some points \<Rightarrow>
                                map (\<lambda>point. num_or (dp_Maximum point) (Num 0)) points))),
          (''dataPoints'',
            VArr (case gms_Datapoints metric of None \<Rightarrow> []
                  | Some points \<Rightarrow> map datapoint_js points))]"

text \<open>
  \<open>stageMetrics\<close>: the count and the total duration per stage name, in the order the
  names were first recorded.
\<close>

type_synonym stage_metrics = "(string \<times> (nat \<times> jsnum)) list"

fun add_duration :: "string \<Rightarrow> jsnum \<Rightarrow> stage_metrics \<Rightarrow> stage_metrics" where
  "add_duration k d [] = [(k, (0 + 1, js_plus (Num 0) d))]"
| "add_duration k d ((k', (c, t)) # rest) =
     (if k' = k then (k', (c + 1, js_plus t d)) # rest else (k', (c, t)) # add_duration k d rest)"

text \<open>
  \<open>stageMetrics\<close> is an object literal, so \<open>stageMetrics[stageName]\<close> is already
  truthy for a name that \<open>Object.prototype\<close> has; no property of \<open>stageMetrics\<close> is
  made for such a name (where the count then lands is not modelled).
\<close>

definition object_prototype_keys :: "string list" where
  "object_prototype_keys =
    [''constructor'', ''__defineGetter__'', ''__defineSetter__'', ''hasOwnProperty'',
     ''__lookupGetter__'', ''__lookupSetter__'', ''isPrototypeOf'', ''propertyIsEnumerable'',
     ''toString'', ''valueOf'', ''__proto__'', ''toLocaleString'']"

definition record_stage :: "string \<Rightarrow> jsnum \<Rightarrow> stage_metrics \<Rightarrow> stage_metrics" where
  "record_stage stageName duration m =
    (if List.member object_prototype_keys stageName then m else add_duration stageName duration m)"

text \<open>The loop over the actions of a stage: the earliest and the latest status change.\<close>

fun scan_actions :: "ActionState list \<Rightarrow> int option \<times> int option \<Rightarrow> int option \<times> int option" where
  "scan_actions [] acc = acc"
| "scan_actions (action # rest) (earliestTime, latestTime) =
     (case (case as_latestExecution action of None \<Rightarrow> None | Some e \<Rightarrow> ae_lastStatusChange e) of
        None \<Rightarrow> scan_actions rest (earliestTime, latestTime)
      | Some timestamp \<Rightarrow>
          scan_actions rest
            ((case earliestTime of None \<Rightarrow> Some timestamp
              | Some e \<Rightarrow> if timestamp < e then Some timestamp else Some e),
             (case latestTime of None \<Rightarrow> Some timestamp
              | Some l \<Rightarrow> if timestamp > l then Some timestamp else Some l)))"

definition process_stage :: "stage_metrics \<Rightarrow> StageState \<Rightarrow> stage_metrics" where
  "process_stage m stage =
    (case (ss_latestExecution stage, ss_stageName stage, ss_actionStates stage) of
       (Some execution, Some stageName, Some actions) \<Rightarrow>
         if se_status execution = Some ''Succeeded'' \<and> stageName \<noteq> [] \<and> 0 < length actions then
           (case scan_actions actions (None, None) of
              (Some earliestTime, Some latestTime) \<Rightarrow>
                record_stage stageName
                  (js_divide (js_minus (Num (of_int latestTime)) (Num (of_int earliestTime)))
                     (Num 1000)) m
            | _ \<Rightarrow> m)
         else m
     | _ \<Rightarrow> m)"

text \<open>The loop over the listed executions, which stops at the first call that fails.\<close>

fun process_executions ::
  "remote \<Rightarrow> string \<Rightarrow> PipelineExecutionSummary list \<Rightarrow> remote_call list \<Rightarrow> stage_metrics
     \<Rightarrow> remote_call list \<times> (js_error + stage_metrics)" where
  "process_executions rm pipelineName [] calls m = (calls, Inr m)"
| "process_executions rm pipelineName (execution # rest) calls m =
     (if pes_startTime execution \<noteq> None \<and> pes_status execution = Some ''Succeeded'' then
        (let executionId = str_or (pes_pipelineExecutionId execution) [];
             calls1 = calls @ [GetPipelineExecution pipelineName executionId]
         in case r_getPipelineExecution rm calls pipelineName executionId of
              Inl e \<Rightarrow> (calls1, Inl e)
            | Inr executionDetail \<Rightarrow>
                (let calls2 = calls1 @ [GetPipelineState pipelineName]
                 in case r_getPipelineState rm calls1 pipelineName of
                      Inl e \<Rightarrow> (calls2, Inl e)
                    | Inr pipelineState \<Rightarrow>
                        process_executions rm pipelineName rest calls2
                          (foldl process_stage m
                             (case gps_stageStates pipelineState of None \<Rightarrow> [] | Some ss \<Rightarrow> ss))))
      else process_executions rm pipelineName rest calls m)"

text \<open>
  \<open>Object.entries(stageMetrics)\<close>: the keys that are array indices first, in ascending
  order, then the other keys in the order they were made.
\<close>

definition is_array_index :: "string \<Rightarrow> bool" where
  "is_array_index k =
    (case digits_val k of
       None \<Rightarrow> False
     | Some n \<Rightarrow> n < 4294967295 \<and> (k = ''0'' \<or> take 1 k \<noteq> ''0''))"

definition index_of_key :: "string \<times> (nat \<times> jsnum) \<Rightarrow> nat" where
  "index_of_key entry = (case digits_val (fst entry) of None \<Rightarrow> 0 | Some n \<Rightarrow> n)"

definition own_entries :: "stage_metrics \<Rightarrow> stage_metrics" where
  "own_entries m =
    sort_key index_of_key (filter (\<lambda>entry. is_array_index (fst entry)) m)
    @ filter (\<lambda>entry. \<not> is_array_index (fst entry)) m"

definition stage_duration_js :: "string \<times> (nat \<times> jsnum) \<Rightarrow> jsval" where
  "stage_duration_js entry =
    (case entry of
       (stageName, count, totalDuration) \<Rightarrow>
         VObj [(''stageName'', VStr stageName),
               (''averageDuration'',
                 VNum (if count > 0 then js_divide totalDuration (Num (of_nat count)) else Num 0)),
               (''executionCount'', VNum (Num (of_nat count)))])"

text \<open>The \<open>metrics\<close> object, for a start and an end that are valid dates.\<close>

definition metrics_js ::
  "string \<Rightarrow> rat \<Rightarrow> int \<Rightarrow> int \<Rightarrow> GetMetricStatisticsOutput \<Rightarrow> GetMetricStatisticsOutput
     \<Rightarrow> GetMetricStatisticsOutput \<Rightarrow> stage_metrics \<Rightarrow> (string \<times> jsval) list" where
  "metrics_js pipelineName period startTime endTime successMetric failedMetric executionTimeMetric
      stageMetrics =
    (let totalSuccessful = total_sum successMetric;
         totalFailed = total_sum failedMetric;
         totalExecutions = js_plus totalSuccessful totalFailed;
         successRate = success_rate totalSuccessful totalExecutions
     in [(''pipelineName'', VStr pipelineName),
         (''timeRange'',
           VObj [(''startTime'', VStr (toISOString startTime)),
                 (''endTime'', VStr (toISOString endTime)),
                 (''periodSeconds'', VNum (Num period))]),
         (''executionStats'',
           VObj [(''totalExecutions'', VNum totalExecutions),
                 (''successfulExecutions'', VNum totalSuccessful),
                 (''failedExecutions'', VNum totalFailed),
                 (''successRate'', VStr (toFixed 2 successRate @ ''%''))]),
         (''executionTime'', execution_time_js executionTimeMetric),
         (''stagePerformance'', VArr (map stage_duration_js (own_entries stageMetrics)))])"

text \<open>
  The period, the end and the start of the time range: the defaults are 86400 seconds,
  the current time, and seven days before the end. \<open>None\<close> is an invalid date, which
  \<open>new Date(number)\<close> also gives for a number that is not a time value.
\<close>

definition input_period :: "MetricsInput \<Rightarrow> rat" where
  "input_period input = (case mi_period input of None \<Rightarrow> 86400 | Some p \<Rightarrow> p)"

definition input_endTime :: "host \<Rightarrow> int \<Rightarrow> MetricsInput \<Rightarrow> int option" where
  "input_endTime h now input =
    (case mi_endTime input of
       None \<Rightarrow> Some now
     | Some s \<Rightarrow> if s = [] then Some now else parseDate h s)"

definition week_before :: "int option \<Rightarrow> int option" where
  "week_before endTime =
    (case endTime of None \<Rightarrow> None | Some t \<Rightarrow> TimeClip (t - 7 * 24 * 60 * 60 * 1000))"

definition input_startTime :: "host \<Rightarrow> int \<Rightarrow> MetricsInput \<Rightarrow> int option" where
  "input_startTime h now input =
    (case mi_startTime input of
       None \<Rightarrow> week_before (input_endTime h now input)
     | Some s \<Rightarrow> if s = [] then week_before (input_endTime h now input) else parseDate h s)"

definition success_request ::
  "host \<Rightarrow> int \<Rightarrow> MetricsInput \<Rightarrow> GetMetricStatisticsInput" where
  "success_request h now input =
    metric_request ''SucceededPipeline'' (mi_pipelineName input) (input_startTime h now input)
      (input_endTime h now input) (input_period input) [''Sum'', ''Average'', ''Maximum'']"

definition failed_request ::
  "host \<Rightarrow> int \<Rightarrow> MetricsInput \<Rightarrow> GetMetricStatisticsInput" where
  "failed_request h now input =
    metric_request ''FailedPipeline'' (mi_pipelineName input) (input_startTime h now input)
      (input_endTime h now input) (input_period input) [''Sum'', ''Average'', ''Maximum'']"

definition execution_time_request ::
  "host \<Rightarrow> int \<Rightarrow> MetricsInput \<Rightarrow> GetMetricStatisticsInput" where
  "execution_time_request h now input =
    metric_request ''PipelineExecutionTime'' (mi_pipelineName input) (input_startTime h now input)
      (input_endTime h now input) (input_period input) [''Average'', ''Minimum'', ''Maximum'']"

text \<open>
  The tool. \<open>toISOString\<close> of an invalid date throws a \<open>RangeError\<close>, after the remote
  calls have been made.
\<close>

definition getPipelineMetrics ::
  "remote \<Rightarrow> host \<Rightarrow> int \<Rightarrow> remote_call list \<Rightarrow> MetricsInput
     \<Rightarrow> remote_call list \<times> (js_error + tool_result)" where
  "getPipelineMetrics rm h now calls input =
    (let pipelineName = mi_pipelineName input;
         calls1 = calls @ [GetMetricStatistics (success_request h now input)];
         calls2 = calls1 @ [GetMetricStatistics (failed_request h now input)];
         calls3 = calls2 @ [GetMetricStatistics (execution_time_request h now input)];
         calls4 = calls3 @ [ListPipelineExecutions pipelineName (Some 20)]
     in case r_getMetricStatistics rm calls (success_request h now input) of
          Inl e \<Rightarrow> (calls1, Inl e)
        | Inr successMetric \<Rightarrow>
       (case r_getMetricStatistics rm calls1 (failed_request h now input) of
          Inl e \<Rightarrow> (calls2, Inl e)
        | Inr failedMetric \<Rightarrow>
       (case r_getMetricStatistics rm calls2 (execution_time_request h now input) of
          Inl e \<Rightarrow> (calls3, Inl e)
        | Inr executionTimeMetric \<Rightarrow>
       (case r_listPipelineExecutions rm calls3 pipelineName (Some 20) of
          Inl e \<Rightarrow> (calls4, Inl e)
        | Inr pipelineExecutions \<Rightarrow>
       (case process_executions rm pipelineName
               (case lpe_pipelineExecutionSummaries pipelineExecutions of None \<Rightarrow> []
                | Some es \<Rightarrow> es) calls4 [] of
          (calls5, Inl e) \<Rightarrow> (calls5, Inl e)
        | (calls5, Inr stageMetrics) \<Rightarrow>
            (calls5,
             case (input_startTime h now input, input_endTime h now input) of
               (Some startTime, Some endTime) \<Rightarrow>
                 Inr (json_result
                   (metrics_js pipelineName (input_period input) startTime endTime successMetric
                      failedMetric executionTimeMetric stageMetrics))
             | _ \<Rightarrow> Inl (JsError ''RangeError'' ''Invalid time value'')))))))"

text \<open>A remote service that answers every call the metrics tool can make.\<close>

definition answers_metrics :: "remote \<Rightarrow> bool" where
  "answers_metrics rm =
    ((\<forall>calls request. \<exists>metric. r_getMetricStatistics rm calls request = Inr metric)
     \<and> (\<forall>calls name limit. \<exists>response. r_listPipelineExecutions rm calls name limit = Inr response)
     \<and> (\<forall>calls name executionId. \<exists>detail. r_getPipelineExecution rm calls name executionId = Inr detail)
     \<and> (\<forall>calls name. \<exists>state. r_getPipelineState rm calls name = Inr state))"

section \<open>The shape of the output of the read projections\<close>

text \<open>
  The output types of \<open>types.ts\<close> as shapes of JSON: an object has members it must
  have and members it may have (those declared with \<open>?\<close>), each of a shape of its own.
  \<open>getPipelineDetails\<close> has no declared output type; its shape is read off its object
  literal, the members given a default being the ones it must have.
\<close>

datatype shape =
    SString
  | SNumber
  | SBoolean
  | SAny
  | SArray shape
  | SObject "(string \<times> shape) list" "(string \<times> shape) list"




















section \<open>Sample inputs\<close>


text \<open>A remote service that answers every call, with a response that has no member.\<close>

definition quiet_remote :: remote where
  "quiet_remote =
    \<lparr>r_listPipelines = (\<lambda>_. Inr \<lparr>lp_pipelines = None\<rparr>),
     r_getPipelineState =
       (\<lambda>_ _. Inr \<lparr>gps_pipelineName = None, gps_pipelineVersion = None, gps_stageStates = None,
                   gps_created = None, gps_updated = None\<rparr>),
     r_listPipelineExecutions = (\<lambda>_ _ _. Inr \<lparr>lpe_pipelineExecutionSummaries = None\<rparr>),
     r_getPipeline = (\<lambda>_ _. Inr \<lparr>gp_pipeline = None, gp_metadata = None\<rparr>),
     r_getPipelineExecution = (\<lambda>_ _ _. Inr ()),
     r_tagResource = (\<lambda>_ _. Inr ()),
     r_stopPipelineExecution = (\<lambda>_ _. Inr ()),
     r_retryStageExecution = (\<lambda>_ _. Inr ()),
     r_putWebhook = (\<lambda>_ _. Inr \<lparr>pw_webhook = None\<rparr>),
     r_registerWebhookWithThirdParty = (\<lambda>_ _. Inr ()),
     r_getMetricStatistics = (\<lambda>_ _. Inr \<lparr>gms_Datapoints = None\<rparr>)\<rparr>"


text \<open>A host in the time zone UTC whose parser takes no string outside the format.\<close>

definition utc_host :: host where
  "utc_host = \<lparr>h_LocalTZA = (\<lambda>_. 0), h_parse = (\<lambda>_. None)\<rparr>"

text \<open>A webhook with the HMAC authentication of GitHub and a secret token.\<close>

definition webhook_input :: WebhookInput where
  "webhook_input =
    \<lparr>wi_pipelineName = ''deploy'',
     wi_webhookName = ''deploy-hook'',
     wi_targetAction = ''Source'',
     wi_authentication = ''GITHUB_HMAC'',
     wi_authenticationConfiguration =
       Some \<lparr>wa_SecretToken = Some ''s3cr3t'', wa_AllowedIpRange = None\<rparr>,
     wi_filters = Some [\<lparr>wf_jsonPath = ''$.ref'', wf_matchEquals = Some ''refs/heads/main''\<rparr>]\<rparr>"

text \<open>
  Inputs of the metrics tool: without a time range, and with a start and an end, once in
  the form \<open>toISOString\<close> writes and once in shorter forms of ISO 8601.
\<close>

definition metrics_input_default :: MetricsInput where
  "metrics_input_default =
    \<lparr>mi_pipelineName = ''deploy'', mi_period = None, mi_startTime = None, mi_endTime = None\<rparr>"


definition metrics_input_canonical :: MetricsInput where
  "metrics_input_canonical =
    \<lparr>mi_pipelineName = ''deploy'', mi_period = None,
     mi_startTime = Some ''2024-01-01T00:00:00.000Z'',
     mi_endTime = Some ''2024-01-08T00:00:00.000Z''\<rparr>"

definition metrics_input_short :: MetricsInput where
  "metrics_input_short =
    \<lparr>mi_pipelineName = ''deploy'', mi_period = None,
     mi_startTime = Some ''2024-01-01T00:00:00Z'',
     mi_endTime = Some ''2024-01-08''\<rparr>"

text \<open>A start on a day its month does not have, and an end with one digit of a fraction.\<close>

definition metrics_input_lenient :: MetricsInput where
  "metrics_input_lenient =
    \<lparr>mi_pipelineName = ''deploy'', mi_period = None,
     mi_startTime = Some ''2024-02-30'',
     mi_endTime = Some ''2024-03-02T10:00:00.5Z''\<rparr>"


text \<open>
  A remote service with three datapoints of successes (one without a \<open>Sum\<close>), one of
  failures, and a present but empty list of datapoints for the execution time; and one
  with 23 successes and 137 failures.
\<close>

definition counted :: "jsnum option \<Rightarrow> Datapoint" where
  "counted x =
    \<lparr>dp_Timestamp = None, dp_Sum = x, dp_Average = None, dp_Minimum = None, dp_Maximum = None\<rparr>"

definition metered_remote :: remote where
  "metered_remote =
    quiet_remote
      \<lparr>r_getMetricStatistics :=
         (\<lambda>_ request.
            Inr \<lparr>gms_Datapoints =
                  (if ms_MetricName request = ''SucceededPipeline''
                   then Some [counted (Some (Num 1)), counted None, counted (Some (Num 1))]
                   else if ms_MetricName request = ''FailedPipeline''
                   then Some [counted (Some (Num 1))]
                   else Some [])\<rparr>)\<rparr>"

definition busy_remote :: remote where
  "busy_remote =
    quiet_remote
      \<lparr>r_getMetricStatistics :=
         (\<lambda>_ request.
            Inr \<lparr>gms_Datapoints =
                  (if ms_MetricName request = ''SucceededPipeline''
                   then Some [counted (Some (Num 23))]
                   else if ms_MetricName request = ''FailedPipeline''
                   then Some [counted (Some (Num 137))]
                   else None)\<rparr>)\<rparr>"

text \<open>A table of handlers to run the protocol server's handler on.\<close>


definition sample_handlers :: handlers where
  "sample_handlers =
    \<lparr>h_listPipelines = Inr (envelope (JObj [(''pipelines'', JArr [])])),
     h_getPipelineState = (\<lambda>_. Inl (OtherError (JsError ''Error'' ''boom''))),
     h_listPipelineExecutions = (\<lambda>_. Inr (envelope (JObj [(''executions'', JArr [])]))),
     h_approveAction = (\<lambda>_. Inl (OtherError (JsError ''Error'' ''boom''))),
     h_retryStage = (\<lambda>_. Inl (OtherError (JsError ''Error'' ''boom''))),
     h_triggerPipeline = (\<lambda>_. Inl (OtherError (JsError ''Error'' ''boom''))),
     h_getPipelineExecutionLogs = (\<lambda>_. Inl (OtherError (JsError ''Error'' ''boom''))),
     h_stopPipelineExecution = (\<lambda>_. Inl (OtherError (JsError ''Error'' ''boom''))),
     h_getPipelineDetails = (\<lambda>_. Inl (OtherError (JsError ''Error'' ''boom''))),
     h_tagPipelineResource = (\<lambda>_. Inl (OtherError (JsError ''Error'' ''boom''))),
     h_createPipelineWebhook = (\<lambda>_. Inl (OtherError (JsError ''Error'' ''boom''))),
     h_getPipelineMetrics = (\<lambda>_. Inl (OtherError (JsError ''Error'' ''boom'')))\<rparr>"

text \<open>The controller's methods answer with their arguments, but for one that fails.\<close>

definition sample_controller :: controller where
  "sample_controller =
    \<lparr>ctl_listPipelines = (\<lambda>arguments. Inr (VArr arguments)),
     ctl_getPipelineState = (\<lambda>arguments. Inr (VArr arguments)),
     ctl_listPipelineExecutions = (\<lambda>arguments. Inr (VArr arguments)),
     ctl_approveAction = (\<lambda>arguments. Inr (VArr arguments)),
     ctl_retryStage = (\<lambda>arguments. Inl (JsError ''Error'' ''boom'')),
     ctl_triggerPipeline = (\<lambda>arguments. Inr (VArr arguments)),
     ctl_getPipelineExecutionLogs = (\<lambda>arguments. Inr (VArr arguments)),
     ctl_stopPipelineExecution = (\<lambda>arguments. Inr (VArr arguments))\<rparr>"

section \<open>Dispatch\<close>

lemma callTool_catch_McpError: "callTool_catch x \<noteq> Inl (OtherError e)"
  by (cases x rule: callTool_catch.cases) simp_all

lemma callTool_catch_cases:
  "callTool_catch x =
    (case x of
       Inr result \<Rightarrow> Inr result
     | Inl (McpError code message) \<Rightarrow> Inl (McpError code message)
     | Inl (OtherError e) \<Rightarrow>
         Inl (McpError InternalError (''Tool execution failed: '' @ error_toString e)))"
  by (cases x rule: callTool_catch.cases) simp_all

lemma callTool_forward:
  assumes "map_of (bound_handler hs) (cp_name params) = Some handler"
  shows "callTool hs params =
    callTool_catch (handler (case cp_arguments params of None \<Rightarrow> VObj [] | Some a \<Rightarrow> a))"
  using assms
  by (auto simp add: bound_handler_def callTool_def callTool_switch_def Let_def split: if_splits)

lemma bound_handler_defined:
  assumes "name \<in> set tool_names"
  shows "map_of (bound_handler hs) name \<noteq> None"
  using assms by (auto simp add: tool_names_def bound_handler_def)

lemma handleTool_forward:
  assumes "map_of (bound_method c) (t_name t) = Some (method, arguments)"
  shows "handleTool (Inr c) t =
    (case arguments (t_parameters t) of
       Inl e \<Rightarrow> handleTool_catch e
     | Inr xs \<Rightarrow> (case method xs of Inl e \<Rightarrow> handleTool_catch e | Inr r \<Rightarrow> SuccessResult r))"
proof -
  have switch: "handleTool_switch c t = handleTool_call method (arguments (t_parameters t))"
    using assms
    by (auto simp add: bound_method_def handleTool_switch_def stop_arguments_def Let_def
          split: if_splits)
  show ?thesis
    by (simp add: handleTool_def switch handleTool_call_def split: sum.splits)
qed

lemma bound_method_defined:
  assumes "name \<in> set handleTool_names"
  shows "map_of (bound_method c) name \<noteq> None"
  using assms by (auto simp add: handleTool_names_def bound_method_def)

text \<open>
  Claim C1, amended. The protocol server's handler rejects a name that is not in its
  table with the \<open>McpError\<close> of code \<open>InvalidRequest\<close> and message
  \<open>Unknown tool: name\<close>; it hands a name of the table to the handler bound to it, with
  the arguments of the request or the empty object, returns the handler's envelope,
  throws on an \<open>McpError\<close> of the handler and wraps any other error into the
  \<open>McpError\<close> of code \<open>InternalError\<close>; so it ends in an envelope or in an
  \<open>McpError\<close>. \<open>handleTool\<close>, when its controller could be made, answers a name
  that is not among its eight with the error result of code \<open>UNKNOWN_TOOL\<close> and calls
  for a name among them the method bound to it with the properties read from the
  parameters, wrapping the method's value into a success result and an error of the
  reading or of the method into the error result of code \<open>INTERNAL_SERVER_ERROR\<close>;
  when the controller could not be made, it answers every name with that error result.
\<close>

theorem dispatch_total:
  "(cp_name params \<notin> set tool_names \<longrightarrow>
      callTool hs params = Inl (McpError InvalidRequest (''Unknown tool: '' @ cp_name params)))
   \<and> (cp_name params \<in> set tool_names \<longrightarrow>
      (\<exists>handler. map_of (bound_handler hs) (cp_name params) = Some handler
         \<and> callTool hs params =
             (case handler (case cp_arguments params of None \<Rightarrow> VObj [] | Some a \<Rightarrow> a) of
                Inr result \<Rightarrow> Inr result
              | Inl (McpError code message) \<Rightarrow> Inl (McpError code message)
              | Inl (OtherError e) \<Rightarrow>
                  Inl (McpError InternalError (''Tool execution failed: '' @ error_toString e)))))
   \<and> (\<forall>e. callTool hs params \<noteq> Inl (OtherError e))
   \<and> (t_name t \<notin> set handleTool_names \<longrightarrow>
      handleTool (Inr c) t = ErrorResult ''UNKNOWN_TOOL'' (''Unknown tool: '' @ t_name t))
   \<and> (t_name t \<in> set handleTool_names \<longrightarrow>
      (\<exists>method arguments. map_of (bound_method c) (t_name t) = Some (method, arguments)
         \<and> handleTool (Inr c) t =
             (case arguments (t_parameters t) of
                Inl e \<Rightarrow> ErrorResult ''INTERNAL_SERVER_ERROR''
                           (if error_message e = [] then ''Internal server error''
                            else error_message e)
              | Inr xs \<Rightarrow>
                  (case method xs of
                     Inl e \<Rightarrow> ErrorResult ''INTERNAL_SERVER_ERROR''
                                (if error_message e = [] then ''Internal server error''
                                 else error_message e)
                   | Inr r \<Rightarrow> SuccessResult r))))
   \<and> handleTool (Inl failure) t =
       ErrorResult ''INTERNAL_SERVER_ERROR''
         (if error_message failure = [] then ''Internal server error''
          else error_message failure)"
proof (intro conjI)
  show "cp_name params \<notin> set tool_names \<longrightarrow>
      callTool hs params = Inl (McpError InvalidRequest (''Unknown tool: '' @ cp_name params))"
    by (simp add: tool_names_def callTool_def callTool_switch_def)
  show "cp_name params \<in> set tool_names \<longrightarrow>
      (\<exists>handler. map_of (bound_handler hs) (cp_name params) = Some handler
         \<and> callTool hs params =
             (case handler (case cp_arguments params of None \<Rightarrow> VObj [] | Some a \<Rightarrow> a) of
                Inr result \<Rightarrow> Inr result
              | Inl (McpError code message) \<Rightarrow> Inl (McpError code message)
              | Inl (OtherError e) \<Rightarrow>
                  Inl (McpError InternalError (''Tool execution failed: '' @ error_toString e))))"
  proof
    assume "cp_name params \<in> set tool_names"
    then obtain handler where b: "map_of (bound_handler hs) (cp_name params) = Some handler"
      using bound_handler_defined [of "cp_name params" hs] by auto
    show "\<exists>handler. map_of (bound_handler hs) (cp_name params) = Some handler
         \<and> callTool hs params =
             (case handler (case cp_arguments params of None \<Rightarrow> VObj [] | Some a \<Rightarrow> a) of
                Inr result \<Rightarrow> Inr result
              | Inl (McpError code message) \<Rightarrow> Inl (McpError code message)
              | Inl (OtherError e) \<Rightarrow>
                  Inl (McpError InternalError (''Tool execution failed: '' @ error_toString e)))"
      using b callTool_forward [OF b] by (simp only: callTool_catch_cases) blast
  qed
  show "\<forall>e. callTool hs params \<noteq> Inl (OtherError e)"
    by (simp add: callTool_def callTool_catch_McpError)
  show "t_name t \<notin> set handleTool_names \<longrightarrow>
      handleTool (Inr c) t = ErrorResult ''UNKNOWN_TOOL'' (''Unknown tool: '' @ t_name t)"
    by (simp add: handleTool_names_def handleTool_def handleTool_switch_def)
  show "t_name t \<in> set handleTool_names \<longrightarrow>
      (\<exists>method arguments. map_of (bound_method c) (t_name t) = Some (method, arguments)
         \<and> handleTool (Inr c) t =
             (case arguments (t_parameters t) of
                Inl e \<Rightarrow> ErrorResult ''INTERNAL_SERVER_ERROR''
                           (if error_message e = [] then ''Internal server error''
                            else error_message e)
              | Inr xs \<Rightarrow>
                  (case method xs of
                     Inl e \<Rightarrow> ErrorResult ''INTERNAL_SERVER_ERROR''
                                (if error_message e = [] then ''Internal server error''
                                 else error_message e)
                   | Inr r \<Rightarrow> SuccessResult r)))"
  proof
    assume "t_name t \<in> set handleTool_names"
    then obtain callee arguments where
      b: "map_of (bound_method c) (t_name t) = Some (callee, arguments)"
      using bound_method_defined [of "t_name t" c] by auto
    show "\<exists>method arguments. map_of (bound_method c) (t_name t) = Some (method, arguments)
         \<and> handleTool (Inr c) t =
             (case arguments (t_parameters t) of
                Inl e \<Rightarrow> ErrorResult ''INTERNAL_SERVER_ERROR''
                           (if error_message e = [] then ''Internal server error''
                            else error_message e)
              | Inr xs \<Rightarrow>
                  (case method xs of
                     Inl e \<Rightarrow> ErrorResult ''INTERNAL_SERVER_ERROR''
                                (if error_message e = [] then ''Internal server error''
                                 else error_message e)
                   | Inr r \<Rightarrow> SuccessResult r))"
      using b handleTool_forward [OF b] by (simp only: handleTool_catch_def) blast
  qed
  show "handleTool (Inl failure) t =
       ErrorResult ''INTERNAL_SERVER_ERROR''
         (if error_message failure = [] then ''Internal server error''
          else error_message failure)"
    by (simp add: handleTool_def handleTool_catch_def)
qed

theorem dispatch_total_witness:
  "''nonexistent_op'' \<notin> set tool_names
   \<and> callTool sample_handlers \<lparr>cp_name = ''nonexistent_op'', cp_arguments = None\<rparr>
       = Inl (McpError InvalidRequest ''Unknown tool: nonexistent_op'')
   \<and> ''get_pipeline_state'' \<in> set tool_names
   \<and> callTool sample_handlers \<lparr>cp_name = ''get_pipeline_state'', cp_arguments = None\<rparr>
       = Inl (McpError InternalError ''Tool execution failed: Error: boom'')
   \<and> ''list_pipelines'' \<in> set tool_names
   \<and> callTool sample_handlers \<lparr>cp_name = ''list_pipelines'', cp_arguments = None\<rparr>
       = Inr (envelope (JObj [(''pipelines'', JArr [])]))
   \<and> ''nonexistent_op'' \<notin> set handleTool_names
   \<and> handleTool (Inr sample_controller) \<lparr>t_name = ''nonexistent_op'', t_parameters = VObj []\<rparr>
       = ErrorResult ''UNKNOWN_TOOL'' ''Unknown tool: nonexistent_op''
   \<and> ''getPipelineState'' \<in> set handleTool_names
   \<and> handleTool (Inr sample_controller)
         \<lparr>t_name = ''getPipelineState'', t_parameters = VObj [(''pipelineName'', VStr ''deploy'')]\<rparr>
       = SuccessResult (VArr [VStr ''deploy''])
   \<and> handleTool (Inr sample_controller) \<lparr>t_name = ''getPipelineState'', t_parameters = VUndefined\<rparr>
       = ErrorResult ''INTERNAL_SERVER_ERROR''
           (''Cannot read properties of undefined (reading '' @ [CHR 0x27] @ ''pipelineName''
              @ [CHR 0x27] @ '')'')
   \<and> ''retryStage'' \<in> set handleTool_names
   \<and> handleTool (Inr sample_controller) \<lparr>t_name = ''retryStage'', t_parameters = VObj []\<rparr>
       = ErrorResult ''INTERNAL_SERVER_ERROR'' ''boom''"
proof -
  let ?unknown = "\<lparr>cp_name = ''nonexistent_op'', cp_arguments = None\<rparr>"
  let ?state = "\<lparr>cp_name = ''get_pipeline_state'', cp_arguments = None\<rparr>"
  let ?list = "\<lparr>cp_name = ''list_pipelines'', cp_arguments = None\<rparr>"
  let ?t = "\<lparr>t_name = ''nonexistent_op'', t_parameters = VObj []\<rparr>"
  let ?t1 = "\<lparr>t_name = ''getPipelineState'', t_parameters = VObj [(''pipelineName'', VStr ''deploy'')]\<rparr>"
  let ?t2 = "\<lparr>t_name = ''getPipelineState'', t_parameters = VUndefined\<rparr>"
  let ?t3 = "\<lparr>t_name = ''retryStage'', t_parameters = VObj []\<rparr>"
  let ?e = "JsError ''Error'' ''boom''"
  have n: "''nonexistent_op'' \<notin> set tool_names" "''get_pipeline_state'' \<in> set tool_names"
      "''list_pipelines'' \<in> set tool_names"
    by (simp_all add: tool_names_def)
  have k: "''nonexistent_op'' \<notin> set handleTool_names" "''getPipelineState'' \<in> set handleTool_names"
      "''retryStage'' \<in> set handleTool_names"
    by (simp_all add: handleTool_names_def)
  have u: "callTool sample_handlers ?unknown
      = Inl (McpError InvalidRequest ''Unknown tool: nonexistent_op'')"
    using dispatch_total [of ?unknown sample_handlers ?t sample_controller ?e] n by simp
  have f: "callTool sample_handlers ?state
      = Inl (McpError InternalError ''Tool execution failed: Error: boom'')"
    using dispatch_total [of ?state sample_handlers ?t sample_controller ?e] n
    by (simp add: bound_handler_def sample_handlers_def)
  have g: "callTool sample_handlers ?list = Inr (envelope (JObj [(''pipelines'', JArr [])]))"
    using dispatch_total [of ?list sample_handlers ?t sample_controller ?e] n
    by (simp add: bound_handler_def sample_handlers_def)
  have h: "handleTool (Inr sample_controller) ?t
      = ErrorResult ''UNKNOWN_TOOL'' ''Unknown tool: nonexistent_op''"
    using dispatch_total [of ?unknown sample_handlers ?t sample_controller ?e] k by simp
  have h1: "handleTool (Inr sample_controller) ?t1 = SuccessResult (VArr [VStr ''deploy''])"
    using dispatch_total [of ?unknown sample_handlers ?t1 sample_controller ?e] k
    by (simp add: bound_method_def sample_controller_def)
  have h2: "handleTool (Inr sample_controller) ?t2
      = ErrorResult ''INTERNAL_SERVER_ERROR''
           (''Cannot read properties of undefined (reading '' @ [CHR 0x27] @ ''pipelineName''
              @ [CHR 0x27] @ '')'')"
    using dispatch_total [of ?unknown sample_handlers ?t2 sample_controller ?e] k
    by (simp add: bound_method_def sample_controller_def)
  have h3: "handleTool (Inr sample_controller) ?t3 = ErrorResult ''INTERNAL_SERVER_ERROR'' ''boom''"
    using dispatch_total [of ?unknown sample_handlers ?t3 sample_controller ?e] k
    by (simp add: bound_method_def sample_controller_def)
  show ?thesis
    using n k u f g h h1 h2 h3 by simp
qed

text \<open>
  Claim C1 does not hold as stated: for a name that is in no table the protocol server's
  handler throws an \<open>McpError\<close> whose code is \<open>InvalidRequest\<close>, and
  \<open>handleTool\<close>, when \<open>require\<close> is not defined where it runs, returns the error
  result of code \<open>INTERNAL_SERVER_ERROR\<close>; neither is an error of an unknown-tool code.
\<close>

theorem unknown_tool_other_codes:
  "callTool sample_handlers \<lparr>cp_name = ''nonexistent_op'', cp_arguments = Some (VObj [])\<rparr>
     = Inl (McpError InvalidRequest ''Unknown tool: nonexistent_op'')
   \<and> handleTool (Inl (JsError ''ReferenceError'' ''require is not defined''))
       \<lparr>t_name = ''nonexistent_op'', t_parameters = VObj []\<rparr>
     = ErrorResult ''INTERNAL_SERVER_ERROR'' ''require is not defined''"
  by (simp add: callTool_def callTool_switch_def handleTool_def handleTool_catch_def)

section \<open>Outgoing calls\<close>

lemma result_at_json_result:
  "result_at (json_result fs) path = at_path (JObj (fields_to_json fs)) path"
  by (simp add: result_at_def result_json_def json_result_def envelope_def)

text \<open>
  Claim C7. Whatever its input, \<open>retryStage\<close> makes one remote call, the retry of the
  stage with the retry mode \<open>FAILED_ACTIONS\<close>, and so does the service method
  \<open>retryStageExecution\<close>: no input sends another retry mode.
\<close>

theorem retry_mode_fixed:
  "fst (retryStage rm calls input) =
     calls @ [RetryStageExecution
       \<lparr>rs_pipelineName = rq_pipelineName input, rs_stageName = rq_stageName input,
        rs_pipelineExecutionId = rq_pipelineExecutionId input, rs_retryMode = ''FAILED_ACTIONS''\<rparr>]
   \<and> fst (retryStageExecution rm calls input) =
     calls @ [RetryStageExecution
       \<lparr>rs_pipelineName = rq_pipelineName input, rs_stageName = rq_stageName input,
        rs_pipelineExecutionId = rq_pipelineExecutionId input, rs_retryMode = ''FAILED_ACTIONS''\<rparr>]"
  by (simp add: retryStage_def retryStageExecution_def retry_params_def)

text \<open>
  Claim C4. \<open>stopPipelineExecution\<close> makes one remote call, the stop of the execution,
  always with \<open>abandon = false\<close>; its reason is \<open>Stopped by user\<close> when the input has
  no reason (or the empty one), and the input's reason otherwise. The service method
  of the same name does the same, its default standing in for a missing reason only.
\<close>

theorem stop_reason_default:
  "fst (stopPipelineExecution rm calls input) =
     calls @ [StopPipelineExecution
       \<lparr>sp_pipelineName = si_pipelineName input, sp_pipelineExecutionId = si_executionId input,
        sp_reason = (case si_reason input of
                       None \<Rightarrow> ''Stopped by user''
                     | Some r \<Rightarrow> if r = [] then ''Stopped by user'' else r),
        sp_abandon = False\<rparr>]
   \<and> fst (service_stopPipelineExecution rm calls pipelineName executionId reason) =
     calls @ [StopPipelineExecution
       \<lparr>sp_pipelineName = pipelineName, sp_pipelineExecutionId = executionId,
        sp_reason = (case reason of None \<Rightarrow> ''Stopped by user'' | Some r \<Rightarrow> r),
        sp_abandon = False\<rparr>]"
  by (simp add: stopPipelineExecution_def stop_params_def str_or_def
        service_stopPipelineExecution_def service_stop_params_def)

text \<open>
  Claim C3. When the lookup of the pipeline answers without an ARN (no metadata, no
  \<open>pipelineArn\<close>, or an empty one), \<open>tagPipelineResource\<close> fails with the error
  \<open>Could not find ARN for pipeline: name\<close>, and the lookup is the only remote call it
  has made: no tags are sent.
\<close>

theorem tag_without_arn:
  assumes "r_getPipeline rm calls (ti_pipelineName input) = Inr response"
    and "(case gp_metadata response of None \<Rightarrow> None | Some m \<Rightarrow> pm_pipelineArn m) = None
         \<or> (case gp_metadata response of None \<Rightarrow> None | Some m \<Rightarrow> pm_pipelineArn m) = Some []"
  shows "tagPipelineResource rm calls input =
      (calls @ [GetPipeline (ti_pipelineName input)],
       Inl (JsError ''Error'' (''Could not find ARN for pipeline: '' @ ti_pipelineName input)))"
  using assms(2)
  by (elim disjE) (simp_all add: tagPipelineResource_def Let_def assms(1))

theorem tag_without_arn_witness:
  "tagPipelineResource quiet_remote []
     \<lparr>ti_pipelineName = ''missing-pipeline'', ti_tags = [(''env'', ''prod'')]\<rparr>
   = ([GetPipeline ''missing-pipeline''],
      Inl (JsError ''Error'' ''Could not find ARN for pipeline: missing-pipeline''))"
proof -
  let ?input = "\<lparr>ti_pipelineName = ''missing-pipeline'', ti_tags = [(''env'', ''prod'')]\<rparr>"
  let ?response = "\<lparr>gp_pipeline = None, gp_metadata = None\<rparr>"
  have a: "r_getPipeline quiet_remote [] (ti_pipelineName ?input) = Inr ?response"
    by (simp add: quiet_remote_def)
  have b: "(case gp_metadata ?response of None \<Rightarrow> None | Some m \<Rightarrow> pm_pipelineArn m) = None
         \<or> (case gp_metadata ?response of None \<Rightarrow> None | Some m \<Rightarrow> pm_pipelineArn m) = Some []"
    by simp
  show ?thesis
    using tag_without_arn [OF a b] by simp
qed

text \<open>
  Claim C5. When \<open>createPipelineWebhook\<close> succeeds it has made two remote calls, first
  the put of the webhook (named, targeted and authenticated as the input says), then its
  registration with the third party, and the \<open>webhookDetails\<close> of the envelope carry
  the input's webhook name, pipeline name and target action.
\<close>

theorem webhook_created:
  assumes "createPipelineWebhook rm calls input = (calls', Inr result)"
  shows "calls' = calls @ [PutWebhook (webhook_params input),
                           RegisterWebhookWithThirdParty (wi_webhookName input)]
    \<and> wd_name (webhook_params input) = wi_webhookName input
    \<and> wd_targetPipeline (webhook_params input) = wi_pipelineName input
    \<and> wd_targetAction (webhook_params input) = wi_targetAction input
    \<and> wd_authentication (webhook_params input) = wi_authentication input
    \<and> result_at result [''webhookDetails'', ''name''] = Some (JStr (wi_webhookName input))
    \<and> result_at result [''webhookDetails'', ''targetPipeline''] = Some (JStr (wi_pipelineName input))
    \<and> result_at result [''webhookDetails'', ''targetAction''] = Some (JStr (wi_targetAction input))"
proof (cases "r_putWebhook rm calls (webhook_params input)")
  case (Inl e)
  with assms show ?thesis by (simp add: createPipelineWebhook_def Let_def)
next
  case put: (Inr response)
  show ?thesis
  proof (cases "r_registerWebhookWithThirdParty rm (calls @ [PutWebhook (webhook_params input)])
                  (wi_webhookName input)")
    case (Inl e)
    with assms put show ?thesis by (simp add: createPipelineWebhook_def Let_def)
  next
    case (Inr u)
    with assms put have c: "calls' = calls @ [PutWebhook (webhook_params input),
                           RegisterWebhookWithThirdParty (wi_webhookName input)]"
      and r: "result = json_result
                   [(''message'', VStr ''Pipeline webhook created and registered successfully''),
                    (''webhookDetails'',
                      VObj [(''name'', VStr (wi_webhookName input)),
                            (''url'', webhook_url_js response),
                            (''targetPipeline'', VStr (wi_pipelineName input)),
                            (''targetAction'', VStr (wi_targetAction input))])]"
      by (simp_all add: createPipelineWebhook_def Let_def)
    have u: "to_json (webhook_url_js response) = None
        \<or> (\<exists>s. to_json (webhook_url_js response) = Some (JStr s))"
      by (simp add: webhook_url_js_def split: option.splits)
    show ?thesis
      using u by (elim disjE exE) (simp_all add: c r result_at_json_result webhook_params_def)
  qed
qed

theorem webhook_created_witness:
  "createPipelineWebhook quiet_remote [] webhook_input =
     ([PutWebhook (webhook_params webhook_input), RegisterWebhookWithThirdParty ''deploy-hook''],
      Inr (json_result
        [(''message'', VStr ''Pipeline webhook created and registered successfully''),
         (''webhookDetails'',
           VObj [(''name'', VStr ''deploy-hook''), (''url'', VUndefined),
                 (''targetPipeline'', VStr ''deploy''), (''targetAction'', VStr ''Source'')])]))
   \<and> wd_authentication (webhook_params webhook_input) = ''GITHUB_HMAC''
   \<and> wa_SecretToken (wd_authenticationConfiguration (webhook_params webhook_input)) = Some ''s3cr3t''
   \<and> result_at (json_result
        [(''message'', VStr ''Pipeline webhook created and registered successfully''),
         (''webhookDetails'',
           VObj [(''name'', VStr ''deploy-hook''), (''url'', VUndefined),
                 (''targetPipeline'', VStr ''deploy''), (''targetAction'', VStr ''Source'')])])
        [''webhookDetails'', ''name''] = Some (JStr ''deploy-hook'')"
proof -
  let ?result = "json_result
        [(''message'', VStr ''Pipeline webhook created and registered successfully''),
         (''webhookDetails'',
           VObj [(''name'', VStr ''deploy-hook''), (''url'', VUndefined),
                 (''targetPipeline'', VStr ''deploy''), (''targetAction'', VStr ''Source'')])]"
  have run: "createPipelineWebhook quiet_remote [] webhook_input =
     ([PutWebhook (webhook_params webhook_input), RegisterWebhookWithThirdParty ''deploy-hook''],
      Inr ?result)"
    by (simp add: createPipelineWebhook_def Let_def quiet_remote_def webhook_input_def
          webhook_url_js_def)
  have auth: "wa_SecretToken (wd_authenticationConfiguration (webhook_params webhook_input))
      = Some ''s3cr3t''"
    by (simp add: webhook_params_def webhook_input_def)
  show ?thesis
    using webhook_created [OF run] run auth by (simp add: webhook_input_def)
qed

section \<open>The shape of the read projections\<close>

text \<open>
  Claim C8. Whenever \<open>getPipelineState\<close> returns an envelope, the \<open>pipelineState\<close> in
  it has the member \<open>stageStates\<close>, and it is an array, also when the remote response
  has no stage states.
\<close>

theorem stage_states_always_sequence:
  assumes "snd (getPipelineState rm now calls pipelineName) = Inr result"
  shows "\<exists>xs. result_at result [''pipelineState'', ''stageStates''] = Some (JArr xs)"
proof (cases "r_getPipelineState rm calls pipelineName")
  case (Inl e)
  with assms show ?thesis by (simp add: getPipelineState_def)
next
  case (Inr response)
  with assms have "result = json_result [(''pipelineState'', pipeline_state_js now response)]"
    by (simp add: getPipelineState_def)
  then show ?thesis
    by (simp add: result_at_json_result pipeline_state_js_def js_int_def)
qed

theorem stage_states_always_sequence_witness:
  "snd (getPipelineState quiet_remote 0 [] ''deploy'')
     = Inr (json_result
         [(''pipelineState'',
           VObj [(''pipelineName'', VStr []), (''pipelineVersion'', VNum (Num 0)),
                 (''stageStates'', VArr []), (''created'', VStr []), (''updated'', VStr [])])])
   \<and> (\<exists>xs. result_at (json_result
         [(''pipelineState'',
           VObj [(''pipelineName'', VStr []), (''pipelineVersion'', VNum (Num 0)),
                 (''stageStates'', VArr []), (''created'', VStr []), (''updated'', VStr [])])])
        [''pipelineState'', ''stageStates''] = Some (JArr xs))"
proof -
  have run: "snd (getPipelineState quiet_remote 0 [] ''deploy'')
     = Inr (json_result
         [(''pipelineState'',
           VObj [(''pipelineName'', VStr []), (''pipelineVersion'', VNum (Num 0)),
                 (''stageStates'', VArr []), (''created'', VStr []), (''updated'', VStr [])])])"
    by (simp add: getPipelineState_def quiet_remote_def pipeline_state_js_def str_or_def
          int_or_def js_int_def iso_or_empty_def)
  show ?thesis
    using stage_states_always_sequence [OF run] run by simp
qed

































section \<open>Double arithmetic\<close>

text \<open>
  A number that is less than half a unit away from the scaled value is its rounding; the
  natural numbers below \<open>2\<^sup>5\<^sup>3\<close> are doubles, so their sums below
  \<open>2\<^sup>5\<^sup>3\<close> are exact; and the binary exponent is the one of the value.
\<close>

lemma bit_length_pos: "0 < n \<Longrightarrow> bit_length n = Suc (bit_length (n div 2))"
  by (subst bit_length.simps) simp

lemma bit_length_zero: "bit_length 0 = 0"
  by (subst bit_length.simps) simp

lemma bit_length_bounds:
  "0 < n \<Longrightarrow> 2 ^ (bit_length n - 1) \<le> n \<and> n < 2 ^ bit_length n"
proof (induction n rule: bit_length.induct)
  case (1 n)
  show ?case
  proof (cases "n div 2 = 0")
    case True
    then have "n = 1" using 1(2) by linarith
    then show ?thesis by (simp add: bit_length_pos bit_length_zero)
  next
    case False
    then have pos: "0 < n div 2" by simp
    have ih: "2 ^ (bit_length (n div 2) - 1) \<le> n div 2" "n div 2 < 2 ^ bit_length (n div 2)"
      using 1(1) [OF _ pos] 1(2) by simp_all
    have b: "0 < bit_length (n div 2)" using pos by (simp add: bit_length_pos)
    have e: "bit_length n = Suc (bit_length (n div 2))" using 1(2) by (rule bit_length_pos)
    have "(2::nat) ^ bit_length (n div 2) = 2 * 2 ^ (bit_length (n div 2) - 1)"
      using b by (cases "bit_length (n div 2)") simp_all
    then have lo: "2 ^ bit_length (n div 2) \<le> n" using ih(1) by linarith
    have hi: "n < 2 * 2 ^ bit_length (n div 2)" using ih(2) by linarith
    show ?thesis using lo hi by (simp add: e)
  qed
qed

lemma round_half_even_near:
  assumes "\<bar>r - of_int n\<bar> < 1 / 2"
  shows "round_half_even r = n"
proof -
  consider "of_int n \<le> r" | "r < of_int n" by linarith
  then show ?thesis
  proof cases
    case 1
    then have "\<lfloor>r\<rfloor> = n" using assms by (intro floor_unique) linarith+
    then show ?thesis using assms 1 by (simp add: round_half_even_def Let_def)
  next
    case 2
    have b: "of_int n - 1 \<le> r" "r < of_int n - 1 + 1" using assms 2 by linarith+
    have f: "\<lfloor>r\<rfloor> = n - 1" by (rule floor_unique) (use b in simp_all)
    have "1 / 2 < r - of_int (n - 1)" using assms 2 by simp
    then show ?thesis using f by (simp add: round_half_even_def Let_def)
  qed
qed

lemma round_double_positive:
  assumes "0 < x" and "floor_log2 x = e" and "q = max e (- 1022) - 52"
    and "\<bar>x / pow2 q - of_int n\<bar> < 1 / 2" and "of_int n * pow2 q < 2 ^ 1024"
  shows "round_double x = Num (of_int n * pow2 q)"
proof -
  have "round_half_even (x / pow2 q) = n" using assms(4) by (rule round_half_even_near)
  then show ?thesis
    using assms(1,2,3,5) by (simp add: round_double_def Let_def abs_of_pos)
qed

lemma round_double_of_nat:
  assumes "n < 2 ^ 53"
  shows "round_double (of_nat n) = Num (of_nat n)"
proof (cases "n = 0")
  case True
  then show ?thesis by (simp add: round_double_def)
next
  case False
  then have pos: "0 < n" by simp
  define b where "b = bit_length n"
  have bounds: "2 ^ (b - 1) \<le> n" "n < 2 ^ b"
    using bit_length_bounds [OF pos] by (simp_all add: b_def)
  have b1: "0 < b" using pos by (simp add: b_def bit_length_pos)
  have lt: "(2::nat) ^ (b - 1) < 2 ^ 53" using bounds(1) assms by linarith
  have "b - 1 < 53" by (rule power_less_imp_less_exp [of 2]) (use lt in simp_all)
  then have b53: "b \<le> 53" by simp
  have x1: "(1::rat) \<le> of_nat n" using pos by simp
  have log: "floor_log2 (of_nat n) = int b - 1"
    using x1 by (simp add: floor_log2_def b_def)
  have q: "int b - 53 = max (int b - 1) (- 1022) - 52" by simp
  have p: "pow2 (int b - 53) = 1 / 2 ^ (53 - b)"
  proof (cases "b = 53")
    case True
    then show ?thesis by (simp add: pow2_def)
  next
    case False
    then have "nat (53 - int b) = 53 - b" "\<not> 0 \<le> int b - 53" using b53 by linarith+
    then show ?thesis by (simp add: pow2_def)
  qed
  have scaled: "of_nat n / pow2 (int b - 53) = of_int (int (n * 2 ^ (53 - b)))"
    by (simp add: p)
  have near: "\<bar>of_nat n / pow2 (int b - 53) - of_int (int (n * 2 ^ (53 - b)))\<bar> < 1 / 2"
    unfolding scaled by simp
  have value_again: "of_int (int (n * 2 ^ (53 - b))) * pow2 (int b - 53) = (of_nat n :: rat)"
    by (simp add: p)
  have "(of_nat n :: rat) < of_nat (2 ^ 53)" using assms by (simp only: of_nat_less_iff)
  also have "(of_nat (2 ^ 53) :: rat) < 2 ^ 1024" by simp
  finally have small: "of_int (int (n * 2 ^ (53 - b))) * pow2 (int b - 53) < 2 ^ 1024"
    unfolding value_again .
  have "round_double (of_nat n) = Num (of_int (int (n * 2 ^ (53 - b))) * pow2 (int b - 53))"
    by (rule round_double_positive [OF _ log q near small]) (use pos in simp)
  then show ?thesis unfolding value_again .
qed

lemma js_plus_of_nat:
  assumes "a + b < 2 ^ 53"
  shows "js_plus (Num (of_nat a)) (Num (of_nat b)) = Num (of_nat (a + b))"
  using round_double_of_nat [OF assms] by simp


lemma floor_numeral_quotient:
  "\<lfloor>(numeral a :: rat) / numeral b\<rfloor> = numeral a div numeral b"
  using floor_divide_of_int_eq [of "numeral a" "numeral b", where ?'a = rat] by simp

lemma bit_length_numeral:
  "bit_length 0 = 0"
  "bit_length (Suc 0) = Suc 0"
  "bit_length 1 = Suc 0"
  "bit_length (numeral k) = Suc (bit_length (numeral k div 2))"
  by (subst bit_length.simps, simp add: bit_length.simps [of 0])+

lemmas floor_log2_eval = floor_log2_def floor_numeral_quotient bit_length_numeral pow2_def Let_def

lemma pow2_nonneg: "pow2 (int k) = 2 ^ k"
  by (simp add: pow2_def)

lemma pow2_neg: "pow2 (- int k) = 1 / 2 ^ k"
  by (cases "k = 0") (simp_all add: pow2_def)

lemma floor_log2_bounds:
  assumes "0 < x"
  shows "pow2 (floor_log2 x) \<le> x \<and> x < pow2 (floor_log2 x + 1)"
proof (cases "1 \<le> x")
  case True
  define n where "n = nat \<lfloor>x\<rfloor>"
  define b where "b = bit_length n"
  have n1: "0 < n" using True by (simp add: n_def)
  have nb: "2 ^ (b - 1) \<le> n" "n < 2 ^ b"
    using bit_length_bounds [OF n1] by (simp_all add: b_def)
  have b1: "0 < b" using n1 by (simp add: b_def bit_length_pos)
  have nx: "of_nat n \<le> x" "x < of_nat n + 1"
    using True by (simp_all add: n_def) linarith+
  have log: "floor_log2 x = int (b - 1)"
    using True b1 by (simp add: floor_log2_def n_def b_def)
  have log1: "floor_log2 x + 1 = int b" using log b1 by simp
  have "(2::rat) ^ (b - 1) \<le> of_nat n"
    using nb(1) by (metis of_nat_le_iff of_nat_numeral of_nat_power)
  then have lo: "pow2 (floor_log2 x) \<le> x"
    unfolding log pow2_nonneg using nx(1) by linarith
  have "n + 1 \<le> 2 ^ b" using nb(2) by simp
  then have "(of_nat (n + 1) :: rat) \<le> 2 ^ b"
    by (metis of_nat_le_iff of_nat_numeral of_nat_power)
  then have hi: "x < pow2 (floor_log2 x + 1)"
    unfolding log1 pow2_nonneg using nx(2) by simp
  show ?thesis using lo hi by simp
next
  case False
  define y where "y = 1 / x"
  have y1: "1 < y" using False assms by (simp add: y_def)
  have xy: "x = 1 / y" by (simp add: y_def)
  define n where "n = nat \<lfloor>y\<rfloor>"
  define k where "k = bit_length n - 1"
  have n1: "0 < n" using y1 by (simp add: n_def)
  have b1: "0 < bit_length n" using n1 by (simp add: bit_length_pos)
  have nb: "2 ^ k \<le> n" "n < 2 ^ Suc k"
    using bit_length_bounds [OF n1] b1 by (simp_all add: k_def)
  have ny: "of_nat n \<le> y" "y < of_nat n + 1"
    using y1 by (simp_all add: n_def) linarith+
  have "(2::rat) ^ k \<le> of_nat n"
    using nb(1) by (metis of_nat_le_iff of_nat_numeral of_nat_power)
  then have lo: "2 ^ k \<le> y" using ny(1) by linarith
  have "n + 1 \<le> 2 ^ Suc k" using nb(2) by simp
  then have "(of_nat (n + 1) :: rat) \<le> 2 ^ Suc k"
    by (metis of_nat_le_iff of_nat_numeral of_nat_power)
  then have hi: "y < 2 ^ Suc k" using ny(2) by simp
  have kk: "int (bit_length n) - 1 = int k" using b1 by (simp add: k_def)
  have log: "floor_log2 x = (if (2::rat) ^ k = y then - int k else - int k - 1)"
    using False by (simp add: floor_log2_def Let_def n_def [symmetric] y_def [symmetric] kk
        pow2_nonneg)
  have ypos: "0 < y" using y1 by simp
  show ?thesis
  proof (cases "(2::rat) ^ k = y")
    case True
    then have k1: "0 < k" using y1 by (cases k) simp_all
    have e: "floor_log2 x = - int k" using log True by simp
    have e1: "floor_log2 x + 1 = - int (k - 1)" using e k1 by simp
    have x2: "x = 1 / 2 ^ k" using True xy by simp
    have "(2::rat) ^ k = 2 * 2 ^ (k - 1)" using k1 by (cases k) simp_all
    then have "x < 1 / 2 ^ (k - 1)" unfolding x2 by (simp add: field_simps)
    then show ?thesis unfolding e1 pow2_neg unfolding e pow2_neg using x2 by simp
  next
    case ne: False
    have e: "floor_log2 x = - int (Suc k)" using log ne by simp
    have e1: "floor_log2 x + 1 = - int k" using e by simp
    have lo': "2 ^ k < y" using lo ne by simp
    have a: "1 / 2 ^ Suc k < x"
      unfolding xy using hi ypos by (simp add: field_simps)
    have b: "x < 1 / 2 ^ k"
      unfolding xy using lo' ypos by (simp add: field_simps)
    show ?thesis unfolding e1 pow2_neg unfolding e pow2_neg using a b by simp
  qed
qed

text \<open>One tenth and two tenths, as doubles, do not add up to the double of three tenths.\<close>

lemma tenths:
  "round_double (1 / 10) = Num (3602879701896397 / 36028797018963968)"
  "round_double (2 / 10) = Num (3602879701896397 / 18014398509481984)"
  "round_double (3 / 10) = Num (5404319552844595 / 18014398509481984)"
  "js_plus (Num (3602879701896397 / 36028797018963968)) (Num (3602879701896397 / 18014398509481984))
     = Num (5404319552844596 / 18014398509481984)"
proof -
  show "round_double (1 / 10) = Num (3602879701896397 / 36028797018963968)"
    using round_double_positive [of "1 / 10" "- 4" "- 56" 7205759403792794]
    by (simp add: floor_log2_eval)
  show "round_double (2 / 10) = Num (3602879701896397 / 18014398509481984)"
    using round_double_positive [of "2 / 10" "- 3" "- 55" 7205759403792794]
    by (simp add: floor_log2_eval)
  show "round_double (3 / 10) = Num (5404319552844595 / 18014398509481984)"
    using round_double_positive [of "3 / 10" "- 2" "- 54" 5404319552844595]
    by (simp add: floor_log2_eval)
  have tie: "round_half_even (10808639105689191 / 2 :: rat) = 5404319552844596"
    by (simp add: round_half_even_def floor_numeral_quotient Let_def)
  have "round_double (3602879701896397 / 36028797018963968 + 3602879701896397 / 18014398509481984)
      = Num (5404319552844596 / 18014398509481984)"
    by (simp add: round_double_def floor_log2_eval tie)
  then show "js_plus (Num (3602879701896397 / 36028797018963968))
       (Num (3602879701896397 / 18014398509481984))
     = Num (5404319552844596 / 18014398509481984)"
    by simp
qed

section \<open>The metrics report\<close>

text \<open>
  The tool returns an envelope exactly when its remote calls are answered and both bounds
  of the time range are valid dates; the envelope is the JSON of the \<open>metrics\<close> object.
\<close>

lemma getPipelineMetrics_success:
  assumes "getPipelineMetrics rm h now calls input = (calls', Inr result)"
  obtains startTime endTime successMetric failedMetric executionTimeMetric stageMetrics where
    "input_startTime h now input = Some startTime"
    "input_endTime h now input = Some endTime"
    "r_getMetricStatistics rm calls (success_request h now input) = Inr successMetric"
    "r_getMetricStatistics rm (calls @ [GetMetricStatistics (success_request h now input)])
       (failed_request h now input) = Inr failedMetric"
    "r_getMetricStatistics rm
       (calls @ [GetMetricStatistics (success_request h now input)]
          @ [GetMetricStatistics (failed_request h now input)])
       (execution_time_request h now input) = Inr executionTimeMetric"
    "result = json_result
       (metrics_js (mi_pipelineName input) (input_period input) startTime endTime successMetric
          failedMetric executionTimeMetric stageMetrics)"
  using assms
  by (auto simp add: getPipelineMetrics_def Let_def split: sum.splits prod.splits option.splits)

lemma process_executions_answered:
  assumes "answers_metrics rm"
  shows "\<exists>calls' stageMetrics.
    process_executions rm pipelineName executions calls m = (calls', Inr stageMetrics)"
proof (induction executions arbitrary: calls m)
  case Nil
  show ?case by simp
next
  case (Cons execution rest)
  show ?case
  proof (cases "pes_startTime execution \<noteq> None \<and> pes_status execution = Some ''Succeeded''")
    case False
    then show ?thesis using Cons [of calls m] by auto
  next
    case True
    let ?id = "str_or (pes_pipelineExecutionId execution) []"
    let ?calls1 = "calls @ [GetPipelineExecution pipelineName ?id]"
    obtain detail where d: "r_getPipelineExecution rm calls pipelineName ?id = Inr detail"
      using assms unfolding answers_metrics_def by blast
    obtain state where s: "r_getPipelineState rm ?calls1 pipelineName = Inr state"
      using assms unfolding answers_metrics_def by blast
    show ?thesis
      using True d s
        Cons [of "?calls1 @ [GetPipelineState pipelineName]"
          "foldl process_stage m (case gps_stageStates state of None \<Rightarrow> [] | Some ss \<Rightarrow> ss)"]
      by (simp add: Let_def)
  qed
qed

lemma getPipelineMetrics_returns:
  assumes a: "answers_metrics rm"
    and st: "input_startTime h now input = Some startTime"
    and en: "input_endTime h now input = Some endTime"
  shows "\<exists>calls' result. getPipelineMetrics rm h now calls input = (calls', Inr result)"
proof -
  let ?calls1 = "calls @ [GetMetricStatistics (success_request h now input)]"
  let ?calls2 = "?calls1 @ [GetMetricStatistics (failed_request h now input)]"
  let ?calls3 = "?calls2 @ [GetMetricStatistics (execution_time_request h now input)]"
  let ?calls4 = "?calls3 @ [ListPipelineExecutions (mi_pipelineName input) (Some 20)]"
  obtain m1 where m1: "r_getMetricStatistics rm calls (success_request h now input) = Inr m1"
    using a unfolding answers_metrics_def by blast
  obtain m2 where m2: "r_getMetricStatistics rm ?calls1 (failed_request h now input) = Inr m2"
    using a unfolding answers_metrics_def by blast
  obtain m3 where m3: "r_getMetricStatistics rm ?calls2 (execution_time_request h now input) = Inr m3"
    using a unfolding answers_metrics_def by blast
  obtain es where es: "r_listPipelineExecutions rm ?calls3 (mi_pipelineName input) (Some 20) = Inr es"
    using a unfolding answers_metrics_def by blast
  obtain calls5 sm where pe: "process_executions rm (mi_pipelineName input)
      (case lpe_pipelineExecutionSummaries es of None \<Rightarrow> [] | Some xs \<Rightarrow> xs) ?calls4 []
      = (calls5, Inr sm)"
    using process_executions_answered [OF a] by blast
  show ?thesis
    using m1 m2 m3 es pe by (simp add: getPipelineMetrics_def Let_def st en)
qed

















lemma default_input_times:
  "input_startTime h 0 metrics_input_default = Some (- 604800000)"
  "input_endTime h 0 metrics_input_default = Some 0"
  by (simp_all add: input_startTime_def input_endTime_def week_before_def TimeClip_def
        metrics_input_default_def)

lemma answers_metrics_samples:
  "answers_metrics quiet_remote" "answers_metrics metered_remote" "answers_metrics busy_remote"
  by (simp_all add: answers_metrics_def quiet_remote_def metered_remote_def busy_remote_def)

lemma quiet_metrics_run:
  assumes "input_startTime h now input = Some startTime" and "input_endTime h now input = Some endTime"
  shows "getPipelineMetrics quiet_remote h now calls input =
    (calls @ [GetMetricStatistics (success_request h now input),
              GetMetricStatistics (failed_request h now input),
              GetMetricStatistics (execution_time_request h now input),
              ListPipelineExecutions (mi_pipelineName input) (Some 20)],
     Inr (json_result
       (metrics_js (mi_pipelineName input) (input_period input) startTime endTime
          \<lparr>gms_Datapoints = None\<rparr> \<lparr>gms_Datapoints = None\<rparr> \<lparr>gms_Datapoints = None\<rparr> [])))"
  by (simp add: getPipelineMetrics_def Let_def quiet_remote_def assms)

lemma metered_metrics_run:
  assumes "input_startTime h now input = Some startTime" and "input_endTime h now input = Some endTime"
  shows "getPipelineMetrics metered_remote h now calls input =
    (calls @ [GetMetricStatistics (success_request h now input),
              GetMetricStatistics (failed_request h now input),
              GetMetricStatistics (execution_time_request h now input),
              ListPipelineExecutions (mi_pipelineName input) (Some 20)],
     Inr (json_result
       (metrics_js (mi_pipelineName input) (input_period input) startTime endTime
          \<lparr>gms_Datapoints = Some [counted (Some (Num 1)), counted None, counted (Some (Num 1))]\<rparr>
          \<lparr>gms_Datapoints = Some [counted (Some (Num 1))]\<rparr> \<lparr>gms_Datapoints = Some []\<rparr> [])))"
  by (simp add: getPipelineMetrics_def Let_def quiet_remote_def metered_remote_def assms
        success_request_def failed_request_def execution_time_request_def metric_request_def)








section \<open>Dates: parsing and writing\<close>

text \<open>
  The year that \<open>YearFromDay\<close> computes is the year of ECMA-262, the one whose first
  day is the last first day up to the given day; a day of the calendar is found again in
  its year, month and day, and a canonical string is parsed and written back to itself.
\<close>

lemma div_bound:
  fixes x k :: int
  assumes "0 < k"
  shows "k * (x div k) \<le> x \<and> x \<le> k * (x div k) + (k - 1)"
proof -
  have "x mod k < k" "0 \<le> x mod k" using assms by simp_all
  moreover have "x = k * (x div k) + x mod k" by simp
  ultimately show ?thesis by linarith
qed

lemma DayFromYear_upper: "400 * DayFromYear y \<le> 146097 * (y - 1970) + 589"
proof -
  obtain a b c where abc: "a = (y - 1969) div 4" "b = (y - 1901) div 100" "c = (y - 1601) div 400"
    by simp
  have "4 * a \<le> y - 1969" "y - 1901 \<le> 100 * b + 99" "400 * c \<le> y - 1601"
    using div_bound [of 4 "y - 1969"] div_bound [of 100 "y - 1901"] div_bound [of 400 "y - 1601"]
    unfolding abc by simp_all
  then show ?thesis unfolding DayFromYear_def abc [symmetric] by simp
qed

lemma DayFromYear_lower: "146097 * (y - 1970) - 506 \<le> 400 * DayFromYear y"
proof -
  obtain a b c where abc: "a = (y - 1969) div 4" "b = (y - 1901) div 100" "c = (y - 1601) div 400"
    by simp
  have "y - 1969 \<le> 4 * a + 3" "100 * b \<le> y - 1901" "y - 1601 \<le> 400 * c + 399"
    using div_bound [of 4 "y - 1969"] div_bound [of 100 "y - 1901"] div_bound [of 400 "y - 1601"]
    unfolding abc by simp_all
  then show ?thesis unfolding DayFromYear_def abc [symmetric] by simp
qed

lemma DayFromYear_strict_mono:
  assumes "y < z"
  shows "DayFromYear y < DayFromYear z"
proof -
  have "146097 * (y - 1970) + 146097 \<le> 146097 * (z - 1970)" using assms by simp
  then show ?thesis
    using DayFromYear_upper [of y] DayFromYear_lower [of z] by simp
qed

lemma YearFromDay_bounds:
  "DayFromYear (YearFromDay n) \<le> n \<and> n < DayFromYear (YearFromDay n + 1)"
proof -
  define e where "e = (400 * n) div 146097"
  have e12: "146097 * e \<le> 400 * n" "400 * n \<le> 146097 * e + 146096"
    unfolding e_def using div_bound [of 146097 "400 * n"] by simp_all
  have A: "DayFromYear (1970 + e - 1) \<le> n"
    using DayFromYear_upper [of "1970 + e - 1"] e12 by simp
  have B: "n < DayFromYear (1970 + e + 1 + 1)"
    using DayFromYear_lower [of "1970 + e + 1 + 1"] e12 by simp
  show ?thesis
    unfolding YearFromDay_def Let_def e_def [symmetric] using A B by auto
qed

lemma YearFromDay_unique:
  assumes "DayFromYear y \<le> n" and "n < DayFromYear (y + 1)"
  shows "YearFromDay n = y"
proof (rule ccontr)
  assume ne: "YearFromDay n \<noteq> y"
  let ?z = "YearFromDay n"
  have b: "DayFromYear ?z \<le> n" "n < DayFromYear (?z + 1)"
    using YearFromDay_bounds [of n] by simp_all
  show False
  proof (cases "?z < y")
    case True
    then have "?z + 1 = y \<or> ?z + 1 < y" by linarith
    then have "DayFromYear (?z + 1) \<le> DayFromYear y"
      using DayFromYear_strict_mono [of "?z + 1" y] by auto
    with b assms show False by linarith
  next
    case False
    with ne have "y + 1 = ?z \<or> y + 1 < ?z" by linarith
    then have "DayFromYear (y + 1) \<le> DayFromYear ?z"
      using DayFromYear_strict_mono [of "y + 1" ?z] by auto
    with b assms show False by linarith
  qed
qed

lemma div_succ:
  fixes x k :: int
  assumes k: "0 < k"
  shows "(x + 1) div k = x div k + (if (x + 1) mod k = 0 then 1 else 0)"
proof -
  have r: "0 \<le> x mod k" "x mod k < k" using k by simp_all
  have x: "x = k * (x div k) + x mod k" by simp
  show ?thesis
  proof (cases "x mod k = k - 1")
    case True
    then have "x + 1 = k * (x div k) + k" using x by linarith
    then have eq: "x + 1 = k * (x div k + 1) + 0" by (simp add: algebra_simps)
    have "(x + 1) div k = x div k + 1" "(x + 1) mod k = 0"
      using int_div_pos_eq [OF eq] int_mod_pos_eq [OF eq] k by simp_all
    then show ?thesis by simp
  next
    case False
    then have lt: "x mod k + 1 < k" "0 \<le> x mod k + 1" using r by linarith+
    have eq: "x + 1 = k * (x div k) + (x mod k + 1)" using x by linarith
    have "(x + 1) div k = x div k" "(x + 1) mod k = x mod k + 1"
      using int_div_pos_eq [OF eq] int_mod_pos_eq [OF eq] lt by simp_all
    then show ?thesis using r by simp
  qed
qed

lemma mod_shift: "k dvd c \<Longrightarrow> (y - c) mod k = 0 \<longleftrightarrow> y mod k = (0::int)"
  by (simp add: mod_eq_0_iff_dvd dvd_diff_left_iff)

lemma DayFromYear_step: "DayFromYear (y + 1) = DayFromYear y + 365 + InLeapYear y"
proof -
  have a: "(y + 1 - 1969) div 4 = (y - 1969) div 4 + (if y mod 4 = 0 then 1 else 0)"
    using div_succ [of 4 "y - 1969"] mod_shift [of 4 1968 y] by (simp add: algebra_simps)
  have b: "(y + 1 - 1901) div 100 = (y - 1901) div 100 + (if y mod 100 = 0 then 1 else 0)"
    using div_succ [of 100 "y - 1901"] mod_shift [of 100 1900 y] by (simp add: algebra_simps)
  have c: "(y + 1 - 1601) div 400 = (y - 1601) div 400 + (if y mod 400 = 0 then 1 else 0)"
    using div_succ [of 400 "y - 1601"] mod_shift [of 400 1600 y] by (simp add: algebra_simps)
  have d1: "y mod 4 = 0" if "y mod 100 = 0"
    using that mod_mod_cancel [of 4 100 y] by simp
  have d2: "y mod 100 = 0" if "y mod 400 = 0"
    using that mod_mod_cancel [of 100 400 y] by simp
  show ?thesis
    unfolding DayFromYear_def InLeapYear_def a b c using d1 d2 by auto
qed

lemma InLeapYear_cases: "InLeapYear y = 0 \<or> InLeapYear y = 1"
  by (simp add: InLeapYear_def)

lemma month_cases:
  assumes "m < (12::nat)"
  obtains "m = 0" | "m = 1" | "m = 2" | "m = 3" | "m = 4" | "m = 5" | "m = 6" | "m = 7"
    | "m = 8" | "m = 9" | "m = 10" | "m = 11"
proof -
  have "m = 0 \<or> m = 1 \<or> m = 2 \<or> m = 3 \<or> m = 4 \<or> m = 5 \<or> m = 6 \<or> m = 7
      \<or> m = 8 \<or> m = 9 \<or> m = 10 \<or> m = 11"
    using assms by arith
  then show thesis using that by blast
qed

text \<open>A day of the calendar lies in its year, its month and on its day.\<close>

lemma civil_roundtrip:
  assumes m: "m < 12" and d: "1 \<le> d" "d \<le> DaysInMonth (InLeapYear y) m"
  defines "n \<equiv> MakeDay y m d"
  shows "YearFromDay n = y"
    and "MonthFromDay (n - DayFromYear y) (InLeapYear y) = m"
    and "n - DayFromYear y - month_start (InLeapYear y) m + 1 = d"
proof -
  let ?L = "InLeapYear y"
  have off: "n - DayFromYear y = month_start ?L m + d - 1"
    by (simp add: n_def MakeDay_def)
  have L: "?L = 0 \<or> ?L = 1" by (rule InLeapYear_cases)
  have range: "0 \<le> month_start ?L m + d - 1 \<and> month_start ?L m + d - 1 < 365 + ?L
      \<and> MonthFromDay (month_start ?L m + d - 1) ?L = m"
    using m
  proof (cases rule: month_cases)
  qed (use d L in \<open>auto simp add: month_start_def DaysInMonth_def MonthFromDay_def\<close>)
  have "DayFromYear y \<le> n" "n < DayFromYear (y + 1)"
    using off range DayFromYear_step [of y] by linarith+
  then show "YearFromDay n = y" by (rule YearFromDay_unique)
  show "MonthFromDay (n - DayFromYear y) ?L = m" using off range by simp
  show "n - DayFromYear y - month_start ?L m + 1 = d" using off by simp
qed

text \<open>A time of day splits into its hours, minutes, seconds and milliseconds.\<close>

lemma time_fields:
  fixes h mi s ms :: int
  assumes "0 \<le> h" "0 \<le> mi" "mi \<le> 59" "0 \<le> s" "s \<le> 59" "0 \<le> ms" "ms \<le> 999"
  defines "t \<equiv> MakeTime h mi s ms"
  shows "t div 3600000 = h" and "t div 60000 mod 60 = mi" and "t div 1000 mod 60 = s"
    and "t mod 1000 = ms"
proof -
  have e1: "t = 3600000 * h + (mi * 60000 + s * 1000 + ms)" by (simp add: t_def MakeTime_def)
  show "t div 3600000 = h"
    by (rule int_div_pos_eq [OF e1]) (use assms in linarith)+
  have e2: "t = 60000 * (60 * h + mi) + (s * 1000 + ms)" by (simp add: t_def MakeTime_def)
  have "t div 60000 = 60 * h + mi"
    by (rule int_div_pos_eq [OF e2]) (use assms in linarith)+
  moreover have "(60 * h + mi) mod 60 = mi"
    by (rule int_mod_pos_eq [of _ 60 h]) (use assms in simp_all)
  ultimately show "t div 60000 mod 60 = mi" by simp
  have e3: "t = 1000 * (3600 * h + 60 * mi + s) + ms" by (simp add: t_def MakeTime_def)
  have "t div 1000 = 3600 * h + 60 * mi + s"
    by (rule int_div_pos_eq [OF e3]) (use assms in linarith)+
  moreover have "(3600 * h + 60 * mi + s) mod 60 = s"
    by (rule int_mod_pos_eq [of _ 60 "60 * h + mi"]) (use assms in simp_all)
  ultimately show "t div 1000 mod 60 = s" by simp
  show "t mod 1000 = ms"
    by (rule int_mod_pos_eq [OF e3]) (use assms in linarith)+
qed

lemma day_and_time:
  fixes day tod :: int
  assumes "0 \<le> tod" "tod < 86400000"
  shows "(day * msPerDay + tod) div msPerDay = day" and "(day * msPerDay + tod) mod msPerDay = tod"
proof -
  have e: "day * msPerDay + tod = msPerDay * day + tod" by simp
  show "(day * msPerDay + tod) div msPerDay = day"
    by (rule int_div_pos_eq [OF e]) (use assms in \<open>simp_all add: msPerDay_def\<close>)
  show "(day * msPerDay + tod) mod msPerDay = tod"
    by (rule int_mod_pos_eq [OF e]) (use assms in \<open>simp_all add: msPerDay_def\<close>)
qed

lemma digit_val_char: "digit_val c = Some d \<Longrightarrow> d < 10 \<and> digit_char d = c"
  by (auto simp add: digit_val_def digit_char_def split: if_splits)

lemma h2: "z < 10 \<Longrightarrow> (10 * y + z) div 10 = y \<and> (10 * y + z) mod 10 = (z::nat)"
  by simp

lemma h3:
  assumes "z < 10"
  shows "(100 * x + 10 * y + z) div 10 = 10 * x + y \<and> (100 * x + 10 * y + z) mod 10 = (z::nat)"
proof -
  have e: "100 * x + 10 * y + z = 10 * (10 * x + y) + z" by simp
  show ?thesis unfolding e by (rule h2 [OF assms])
qed

lemma h4:
  assumes "z < 10"
  shows "(1000 * w + 100 * x + 10 * y + z) div 10 = 100 * w + 10 * x + y
     \<and> (1000 * w + 100 * x + 10 * y + z) mod 10 = (z::nat)"
proof -
  have e: "1000 * w + 100 * x + 10 * y + z = 10 * (100 * w + 10 * x + y) + z" by simp
  show ?thesis unfolding e by (rule h2 [OF assms])
qed

lemma digits2: "digits_val [a, b] = Some n \<Longrightarrow> n < 100 \<and> pad2 n = [a, b]"
  by (auto simp add: digits_val_def pad2_def split: option.splits dest!: digit_val_char)

lemma digits3: "digits_val [a, b, c] = Some n \<Longrightarrow> n < 1000 \<and> pad3 n = [a, b, c]"
  by (auto simp add: digits_val_def pad3_def pad2_def h3 split: option.splits dest!: digit_val_char)

lemma digits4: "digits_val [a, b, c, d] = Some n \<Longrightarrow> n < 10000 \<and> pad4 n = [a, b, c, d]"
  by (auto simp add: digits_val_def pad4_def pad3_def pad2_def h3 h4 split: option.splits dest!: digit_val_char)

lemma list24:
  assumes "length (s::'a list) = 24"
  obtains x0 x1 x2 x3 x4 x5 x6 x7 x8 x9 x10 x11 x12 x13 x14 x15 x16 x17 x18 x19 x20 x21 x22 x23
  where "s = [x0, x1, x2, x3, x4, x5, x6, x7, x8, x9, x10, x11, x12, x13, x14, x15, x16, x17,
              x18, x19, x20, x21, x22, x23]"
  using assms by (auto simp add: eval_nat_numeral length_Suc_conv)

lemma canonical_isoE:
  assumes "canonical_iso s"
  obtains a b c d e f g h i j k l m n p q r Y M D H Mi S F where
    "s = [a, b, c, d, CHR ''-'', e, f, CHR ''-'', g, h, CHR ''T'', i, j, CHR '':'', k, l,
          CHR '':'', m, n, CHR ''.'', p, q, r, CHR ''Z'']"
    "digits_val [a, b, c, d] = Some Y" "digits_val [e, f] = Some M" "digits_val [g, h] = Some D"
    "digits_val [i, j] = Some H" "digits_val [k, l] = Some Mi" "digits_val [m, n] = Some S"
    "digits_val [p, q, r] = Some F"
    "1 \<le> M" "M \<le> 12" "1 \<le> D" "int D \<le> DaysInMonth (InLeapYear (int Y)) (M - 1)"
    "H \<le> 23" "Mi \<le> 59" "S \<le> 59"
proof -
  from assms have len: "length s = 24" by (simp add: canonical_iso_def)
  then obtain x0 x1 x2 x3 x4 x5 x6 x7 x8 x9 x10 x11 x12 x13 x14 x15 x16 x17 x18 x19 x20 x21 x22 x23
    where s: "s = [x0, x1, x2, x3, x4, x5, x6, x7, x8, x9, x10, x11, x12, x13, x14, x15, x16, x17,
              x18, x19, x20, x21, x22, x23]"
    by (rule list24)
  from assms have sep: "x4 = CHR ''-''" "x7 = CHR ''-''" "x10 = CHR ''T''" "x13 = CHR '':''"
      "x16 = CHR '':''" "x19 = CHR ''.''" "x23 = CHR ''Z''"
    unfolding s canonical_iso_def by simp_all
  from assms obtain Y M D H Mi S F where v:
      "digits_val [x0, x1, x2, x3] = Some Y" "digits_val [x5, x6] = Some M"
      "digits_val [x8, x9] = Some D" "digits_val [x11, x12] = Some H"
      "digits_val [x14, x15] = Some Mi" "digits_val [x17, x18] = Some S"
      "digits_val [x20, x21, x22] = Some F"
      "1 \<le> M" "M \<le> 12" "1 \<le> D" "int D \<le> DaysInMonth (InLeapYear (int Y)) (M - 1)"
      "H \<le> 23" "Mi \<le> 59" "S \<le> 59"
    unfolding s canonical_iso_def by (auto split: option.splits)
  show thesis
    by (rule that [OF _ v]) (simp add: s sep)
qed

lemma DaysInMonth_le:
  assumes "m < 12"
  shows "DaysInMonth (InLeapYear y) m \<le> 31"
  using assms
proof (cases rule: month_cases)
qed (use InLeapYear_cases [of y] in \<open>auto simp add: DaysInMonth_def\<close>)

lemma month_start_range:
  assumes "m < 12"
  shows "0 \<le> month_start (InLeapYear y) m \<and> month_start (InLeapYear y) m \<le> 335"
  using assms
proof (cases rule: month_cases)
qed (use InLeapYear_cases [of y] in \<open>auto simp add: month_start_def\<close>)

text \<open>The days of the years 0000 to 9999 are time values.\<close>

lemma four_digit_year_in_range:
  assumes y: "0 \<le> y" "y \<le> 9999" and m: "m < 12" and d: "1 \<le> d" "d \<le> 31"
    and tod: "0 \<le> tod" "tod < 86400000"
  shows "TimeClip (MakeDay y m d * msPerDay + tod) = Some (MakeDay y m d * msPerDay + tod)"
proof -
  have u: "400 * DayFromYear y \<le> 146097 * (y - 1970) + 589" by (rule DayFromYear_upper)
  have l: "146097 * (y - 1970) - 506 \<le> 400 * DayFromYear y" by (rule DayFromYear_lower)
  have "400 * DayFromYear y \<le> 1173013402" "- 287811596 \<le> 400 * DayFromYear y"
    using u l y by simp_all
  then have "DayFromYear y \<le> 2932537" "- 719530 \<le> DayFromYear y"
    by linarith+
  moreover note month_start_range [OF m, of y]
  ultimately have "MakeDay y m d \<le> 2932904" "- 719530 \<le> MakeDay y m d"
    using d by (simp_all add: MakeDay_def)
  then have "\<bar>MakeDay y m d * msPerDay + tod\<bar> \<le> 8640000000000000"
    using tod by (simp add: msPerDay_def abs_le_iff)
  then show ?thesis by (simp add: TimeClip_def)
qed

lemma iso_roundtrip:
  assumes "canonical_iso s"
  shows "map_option toISOString (parseDate h s) = Some s"
proof -
  from assms obtain a b c d e f g h' i j k l m n p q r Y M D H Mi S F where
    s: "s = [a, b, c, d, CHR ''-'', e, f, CHR ''-'', g, h', CHR ''T'', i, j, CHR '':'', k, l,
          CHR '':'', m, n, CHR ''.'', p, q, r, CHR ''Z'']"
    and v: "digits_val [a, b, c, d] = Some Y" "digits_val [e, f] = Some M"
      "digits_val [g, h'] = Some D" "digits_val [i, j] = Some H" "digits_val [k, l] = Some Mi"
      "digits_val [m, n] = Some S" "digits_val [p, q, r] = Some F"
    and b: "1 \<le> M" "M \<le> 12" "1 \<le> D" "int D \<le> DaysInMonth (InLeapYear (int Y)) (M - 1)"
      "H \<le> 23" "Mi \<le> 59" "S \<le> 59"
    by (rule canonical_isoE)
  define day where "day = MakeDay (int Y) (M - 1) (int D)"
  define tod where "tod = MakeTime (int H) (int Mi) (int S) (int F)"
  have m: "M - 1 < 12" using b by linarith
  have D31: "D \<le> 31" using b(4) DaysInMonth_le [OF m, of "int Y"] by linarith
  have b': "Suc 0 \<le> M" "Suc 0 \<le> D" using b by simp_all
  have year: "parse_year s = Some (int Y, 4)"
    unfolding s by (simp add: parse_year_def v)
  have date: "parse_date s = Some (day, 10)"
    unfolding parse_date_def year unfolding s
    by (simp add: two_digits_def v calendar_day_def b b' D31 day_def)
  have time: "parse_time [i, j, CHR '':'', k, l, CHR '':'', m, n, CHR ''.'', p, q, r] = Some tod"
    by (simp add: parse_time_def parse_fraction_def v b tod_def)
  have format: "parse_format h s = Some (day * msPerDay + tod)"
    unfolding parse_format_def date unfolding s
    by (simp add: zone_length_def time parse_zone_def)
  have F: "F < 1000" using digits3 [OF v(7)] by simp
  have Y: "Y < 10000" using digits4 [OF v(1)] by simp
  have ints: "int H \<le> 23" "int Mi \<le> 59" "int S \<le> 59" "int F \<le> 999"
      "0 \<le> int H" "0 \<le> int Mi" "0 \<le> int S" "0 \<le> int F"
    using b F by linarith+
  have tod_range: "0 \<le> tod" "tod < 86400000"
    unfolding tod_def MakeTime_def using ints by linarith+
  have d: "1 \<le> int D" using b by linarith
  have clip: "TimeClip (day * msPerDay + tod) = Some (day * msPerDay + tod)"
    unfolding day_def
    by (rule four_digit_year_in_range [OF _ _ m d _ tod_range]) (use Y D31 in simp_all)
  have parse: "parseDate h s = Some (day * msPerDay + tod)"
    by (simp add: parseDate_def format clip)
  have split: "(day * msPerDay + tod) div msPerDay = day" "(day * msPerDay + tod) mod msPerDay = tod"
    by (rule day_and_time [OF tod_range])+
  have cal: "YearFromDay day = int Y"
      "MonthFromDay (day - DayFromYear (int Y)) (InLeapYear (int Y)) = M - 1"
      "day - DayFromYear (int Y) - month_start (InLeapYear (int Y)) (M - 1) + 1 = int D"
    unfolding day_def by (rule civil_roundtrip [OF m d b(4)])+
  have tm: "tod div 3600000 = int H" "tod div 60000 mod 60 = int Mi"
      "tod div 1000 mod 60 = int S" "tod mod 1000 = int F"
    unfolding tod_def
    by (rule time_fields [OF ints(5) ints(6) ints(2) ints(7) ints(3) ints(8) ints(4)])+
  have year_text: "year_string (int Y) = [a, b, c, d]"
    using Y digits4 [OF v(1)] by (simp add: year_string_def)
  have M1: "M - 1 + 1 = M" using b by simp
  have pads: "pad2 M = [e, f]" "pad2 D = [g, h']" "pad2 H = [i, j]" "pad2 Mi = [k, l]"
      "pad2 S = [m, n]" "pad3 F = [p, q, r]"
    using digits2 [OF v(2)] digits2 [OF v(3)] digits2 [OF v(4)] digits2 [OF v(5)]
      digits2 [OF v(6)] digits3 [OF v(7)] by simp_all
  have "toISOString (day * msPerDay + tod) = s"
    by (simp only: toISOString_def Let_def split cal tm year_text M1 nat_int pads) (simp add: s)
  with parse show ?thesis by simp
qed


section \<open>The time range of the metrics report\<close>

lemma metrics_timeRange:
  "result_at (json_result (metrics_js name period st en m1 m2 m3 sm)) [''timeRange'', ''startTime'']
     = Some (JStr (toISOString st))"
  "result_at (json_result (metrics_js name period st en m1 m2 m3 sm)) [''timeRange'', ''endTime'']
     = Some (JStr (toISOString en))"
  by (simp_all add: result_at_json_result metrics_js_def Let_def)

lemmas toISOString_eval = msPerDay_def YearFromDay_def DayFromYear_def InLeapYear_def
  MonthFromDay_def month_start_def year_string_def pad2_def pad3_def pad4_def pad6_def
  digit_char_def Let_def

lemmas parseDate_eval = parse_year_def two_digits_def calendar_day_def parse_fraction_def
  parse_time_def parse_zone_def zone_length_def digits_val_def digit_val_def MakeDay_def
  MakeTime_def DayFromYear_def InLeapYear_def month_start_def msPerDay_def TimeClip_def Let_def

lemma parse_samples:
  "parseDate utc_host ''2024-01-01T00:00:00Z'' = Some 1704067200000"
  "parseDate utc_host ''2024-01-08'' = Some 1704672000000"
  "parseDate utc_host ''2024-01-01T00:00:00.000Z'' = Some 1704067200000"
  "parseDate utc_host ''2024-01-08T00:00:00.000Z'' = Some 1704672000000"
  by (simp_all only: parseDate_def parse_format_def parse_date_def Let_def)
    (simp_all add: parseDate_eval)

lemma toISOString_samples:
  "toISOString 1704067200000 = ''2024-01-01T00:00:00.000Z''"
  "toISOString 1704672000000 = ''2024-01-08T00:00:00.000Z''"
  by (simp_all only: toISOString_def Let_def) (simp_all add: toISOString_eval)

lemma canonical_samples:
  "canonical_iso ''2024-01-01T00:00:00.000Z''"
  "canonical_iso ''2024-01-08T00:00:00.000Z''"
  by (simp_all add: canonical_iso_def digits_val_def digit_val_def DaysInMonth_def InLeapYear_def)

lemma more_parse_samples:
  "parseDate utc_host ''2024-02-30'' = Some 1709251200000"
  "parseDate utc_host ''2024-03-02T10:00:00.5Z'' = Some 1709373600500"
  by (simp_all only: parseDate_def parse_format_def parse_date_def Let_def)
    (simp_all add: parseDate_eval)

lemma more_toISOString_samples:
  "toISOString 1709251200000 = ''2024-03-01T00:00:00.000Z''"
  "toISOString 1709373600500 = ''2024-03-02T10:00:00.500Z''"
  by (simp_all only: toISOString_def Let_def) (simp_all add: toISOString_eval)

text \<open>
  Claim C9 does not hold as stated: a start given as \<open>2024-01-01T00:00:00Z\<close> and an
  end given as \<open>2024-01-08\<close>, both ISO 8601, are reported in the time range as
  \<open>2024-01-01T00:00:00.000Z\<close> and \<open>2024-01-08T00:00:00.000Z\<close>; and a start given as
  \<open>2024-02-30\<close> and an end given as \<open>2024-03-02T10:00:00.5Z\<close> are reported as
  \<open>2024-03-01T00:00:00.000Z\<close> and \<open>2024-03-02T10:00:00.500Z\<close>.
\<close>

theorem timestamps_short_form_rewritten:
  "reported (getPipelineMetrics quiet_remote utc_host 0 [] metrics_input_short)
     [''timeRange'', ''startTime''] = Some (JStr ''2024-01-01T00:00:00.000Z'')
   \<and> mi_startTime metrics_input_short = Some ''2024-01-01T00:00:00Z''
   \<and> reported (getPipelineMetrics quiet_remote utc_host 0 [] metrics_input_short)
     [''timeRange'', ''endTime''] = Some (JStr ''2024-01-08T00:00:00.000Z'')
   \<and> mi_endTime metrics_input_short = Some ''2024-01-08''
   \<and> reported (getPipelineMetrics quiet_remote utc_host 0 [] metrics_input_lenient)
     [''timeRange'', ''startTime''] = Some (JStr ''2024-03-01T00:00:00.000Z'')
   \<and> mi_startTime metrics_input_lenient = Some ''2024-02-30''
   \<and> reported (getPipelineMetrics quiet_remote utc_host 0 [] metrics_input_lenient)
     [''timeRange'', ''endTime''] = Some (JStr ''2024-03-02T10:00:00.500Z'')
   \<and> mi_endTime metrics_input_lenient = Some ''2024-03-02T10:00:00.5Z''"
proof -
  have st: "input_startTime utc_host 0 metrics_input_short = Some 1704067200000"
    and en: "input_endTime utc_host 0 metrics_input_short = Some 1704672000000"
    by (simp_all add: input_startTime_def input_endTime_def metrics_input_short_def parse_samples)
  have st': "input_startTime utc_host 0 metrics_input_lenient = Some 1709251200000"
    and en': "input_endTime utc_host 0 metrics_input_lenient = Some 1709373600500"
    by (simp_all add: input_startTime_def input_endTime_def metrics_input_lenient_def
          more_parse_samples)
  show ?thesis
    by (simp add: reported_def quiet_metrics_run [OF st en] quiet_metrics_run [OF st' en']
          metrics_timeRange toISOString_samples more_toISOString_samples)
      (simp add: metrics_input_short_def metrics_input_lenient_def)
qed

lemma canonical_not_empty: "canonical_iso s \<Longrightarrow> s \<noteq> []"
  by (auto simp add: canonical_iso_def)

lemma canonical_parsed:
  assumes "canonical_iso s"
  obtains t where "parseDate h s = Some t" "toISOString t = s"
  using iso_roundtrip [OF assms, of h] by auto

text \<open>
  Claim C9, amended. A start or an end of the time range that is given in the form
  \<open>toISOString\<close> writes for the years 0000 to 9999 (\<open>YYYY-MM-DDTHH:mm:ss.sssZ\<close>
  with a month from 01 to 12, a day that the month has, and a time of day up to
  23:59:59.999) is a valid date, and every envelope the tool returns reports it in the
  time range as the very string of the input, whatever the other bound is. Any other
  start or end is reported, when it is not empty and the tool returns an envelope, as
  \<open>toISOString\<close> writes the time value that \<open>new Date\<close> has made of it. The tool
  returns an envelope whenever the remote calls are answered and both bounds are valid
  dates.
\<close>

theorem timestamps_canonical_roundtrip:
  "(\<forall>s. mi_startTime input = Some s \<and> canonical_iso s \<longrightarrow>
      input_startTime h now input \<noteq> None
      \<and> (\<forall>calls' result. getPipelineMetrics rm h now calls input = (calls', Inr result) \<longrightarrow>
            result_at result [''timeRange'', ''startTime''] = Some (JStr s)))
   \<and> (\<forall>s. mi_endTime input = Some s \<and> canonical_iso s \<longrightarrow>
      input_endTime h now input \<noteq> None
      \<and> (\<forall>calls' result. getPipelineMetrics rm h now calls input = (calls', Inr result) \<longrightarrow>
            result_at result [''timeRange'', ''endTime''] = Some (JStr s)))
   \<and> (\<forall>s calls' result. mi_startTime input = Some s \<and> s \<noteq> []
          \<and> getPipelineMetrics rm h now calls input = (calls', Inr result) \<longrightarrow>
        (\<exists>t. parseDate h s = Some t
           \<and> result_at result [''timeRange'', ''startTime''] = Some (JStr (toISOString t))))
   \<and> (\<forall>s calls' result. mi_endTime input = Some s \<and> s \<noteq> []
          \<and> getPipelineMetrics rm h now calls input = (calls', Inr result) \<longrightarrow>
        (\<exists>t. parseDate h s = Some t
           \<and> result_at result [''timeRange'', ''endTime''] = Some (JStr (toISOString t))))
   \<and> (answers_metrics rm \<and> input_startTime h now input \<noteq> None
          \<and> input_endTime h now input \<noteq> None \<longrightarrow>
        (\<exists>calls' result. getPipelineMetrics rm h now calls input = (calls', Inr result)))"
proof (intro conjI allI impI)
  fix s
  assume a: "mi_startTime input = Some s \<and> canonical_iso s"
  then obtain t where t: "parseDate h s = Some t" "toISOString t = s"
    using canonical_parsed [of s h] by blast
  have i: "input_startTime h now input = Some t"
    using a t canonical_not_empty [of s] by (simp add: input_startTime_def)
  show "input_startTime h now input \<noteq> None" using i by simp
  fix calls' result
  assume "getPipelineMetrics rm h now calls input = (calls', Inr result)"
  then obtain startTime endTime m1 m2 m3 sm where
    st: "input_startTime h now input = Some startTime"
    and r: "result = json_result
       (metrics_js (mi_pipelineName input) (input_period input) startTime endTime m1 m2 m3 sm)"
    by (rule getPipelineMetrics_success)
  show "result_at result [''timeRange'', ''startTime''] = Some (JStr s)"
    using st i t by (simp add: r metrics_timeRange)
next
  fix s
  assume a: "mi_endTime input = Some s \<and> canonical_iso s"
  then obtain t where t: "parseDate h s = Some t" "toISOString t = s"
    using canonical_parsed [of s h] by blast
  have i: "input_endTime h now input = Some t"
    using a t canonical_not_empty [of s] by (simp add: input_endTime_def)
  show "input_endTime h now input \<noteq> None" using i by simp
  fix calls' result
  assume "getPipelineMetrics rm h now calls input = (calls', Inr result)"
  then obtain startTime endTime m1 m2 m3 sm where
    en: "input_endTime h now input = Some endTime"
    and r: "result = json_result
       (metrics_js (mi_pipelineName input) (input_period input) startTime endTime m1 m2 m3 sm)"
    by (rule getPipelineMetrics_success)
  show "result_at result [''timeRange'', ''endTime''] = Some (JStr s)"
    using en i t by (simp add: r metrics_timeRange)
next
  fix s calls' result
  assume a: "mi_startTime input = Some s \<and> s \<noteq> []
          \<and> getPipelineMetrics rm h now calls input = (calls', Inr result)"
  then obtain startTime endTime m1 m2 m3 sm where
    st: "input_startTime h now input = Some startTime"
    and r: "result = json_result
       (metrics_js (mi_pipelineName input) (input_period input) startTime endTime m1 m2 m3 sm)"
    using getPipelineMetrics_success [of rm h now calls input calls' result] by metis
  have "parseDate h s = Some startTime" using a st by (simp add: input_startTime_def)
  then show "\<exists>t. parseDate h s = Some t
           \<and> result_at result [''timeRange'', ''startTime''] = Some (JStr (toISOString t))"
    by (simp add: r metrics_timeRange)
next
  fix s calls' result
  assume a: "mi_endTime input = Some s \<and> s \<noteq> []
          \<and> getPipelineMetrics rm h now calls input = (calls', Inr result)"
  then obtain startTime endTime m1 m2 m3 sm where
    en: "input_endTime h now input = Some endTime"
    and r: "result = json_result
       (metrics_js (mi_pipelineName input) (input_period input) startTime endTime m1 m2 m3 sm)"
    using getPipelineMetrics_success [of rm h now calls input calls' result] by metis
  have "parseDate h s = Some endTime" using a en by (simp add: input_endTime_def)
  then show "\<exists>t. parseDate h s = Some t
           \<and> result_at result [''timeRange'', ''endTime''] = Some (JStr (toISOString t))"
    by (simp add: r metrics_timeRange)
next
  assume "answers_metrics rm \<and> input_startTime h now input \<noteq> None
          \<and> input_endTime h now input \<noteq> None"
  then show "\<exists>calls' result. getPipelineMetrics rm h now calls input = (calls', Inr result)"
    using getPipelineMetrics_returns [of rm h now input _ _ calls] by auto
qed

theorem timestamps_canonical_roundtrip_witness:
  "canonical_iso ''2024-01-01T00:00:00.000Z'' \<and> canonical_iso ''2024-01-08T00:00:00.000Z''
   \<and> mi_startTime metrics_input_canonical = Some ''2024-01-01T00:00:00.000Z''
   \<and> mi_endTime metrics_input_canonical = Some ''2024-01-08T00:00:00.000Z''
   \<and> reported (getPipelineMetrics quiet_remote utc_host 0 [] metrics_input_canonical)
        [''timeRange'', ''startTime''] = Some (JStr ''2024-01-01T00:00:00.000Z'')
   \<and> reported (getPipelineMetrics quiet_remote utc_host 0 [] metrics_input_canonical)
        [''timeRange'', ''endTime''] = Some (JStr ''2024-01-08T00:00:00.000Z'')
   \<and> (\<exists>calls' result.
        getPipelineMetrics quiet_remote utc_host 0 [] metrics_input_canonical = (calls', Inr result))"
proof -
  have st: "input_startTime utc_host 0 metrics_input_canonical = Some 1704067200000"
    and en: "input_endTime utc_host 0 metrics_input_canonical = Some 1704672000000"
    by (simp_all add: input_startTime_def input_endTime_def metrics_input_canonical_def
          parse_samples)
  note run = quiet_metrics_run [OF st en, of "[]"]
  have s: "mi_startTime metrics_input_canonical = Some ''2024-01-01T00:00:00.000Z''"
    and e: "mi_endTime metrics_input_canonical = Some ''2024-01-08T00:00:00.000Z''"
    by (simp_all add: metrics_input_canonical_def)
  note main = timestamps_canonical_roundtrip [of metrics_input_canonical utc_host 0 quiet_remote "[]"]
  have a: "reported (getPipelineMetrics quiet_remote utc_host 0 [] metrics_input_canonical)
        [''timeRange'', ''startTime''] = Some (JStr ''2024-01-01T00:00:00.000Z'')"
    using main s canonical_samples(1) run by (simp add: reported_def)
  have b: "reported (getPipelineMetrics quiet_remote utc_host 0 [] metrics_input_canonical)
        [''timeRange'', ''endTime''] = Some (JStr ''2024-01-08T00:00:00.000Z'')"
    using main e canonical_samples(2) run by (simp add: reported_def)
  have c: "\<exists>calls' result.
        getPipelineMetrics quiet_remote utc_host 0 [] metrics_input_canonical = (calls', Inr result)"
    using main st en answers_metrics_samples(1) by simp
  show ?thesis
    using a b c s e canonical_samples by simp
qed

section \<open>The execution time of the metrics report\<close>

lemma metrics_executionTime:
  "result_at (json_result (metrics_js name period st en m1 m2 m3 sm)) [''executionTime'']
     = to_json (execution_time_js m3)"
  by (simp add: result_at_json_result metrics_js_def Let_def execution_time_js_def)

lemma execution_time_empty:
  assumes "gms_Datapoints metric = Some []"
  shows "execution_time_js metric =
    VObj [(''average'', VNum (Num 0)), (''minimum'', VNum PosInfinity),
          (''maximum'', VNum NegInfinity), (''dataPoints'', VArr [])]"
  by (simp add: execution_time_js_def assms Math_min_def Math_max_def)

lemma execution_time_absent:
  assumes "gms_Datapoints metric = None"
  shows "execution_time_js metric =
    VObj [(''average'', VNum (Num 0)), (''minimum'', VNum (Num 0)),
          (''maximum'', VNum (Num 0)), (''dataPoints'', VArr [])]"
  by (simp add: execution_time_js_def assms Math_min_def Math_max_def)

text \<open>
  Claim C10: what the code does. When the execution-time query answers with a present
  but empty list of datapoints, the \<open>metrics\<close> object holds the average 0, the minimum
  \<open>Infinity\<close> and the maximum \<open>-Infinity\<close>, since the fallback \<open>|| [0]\<close> does
  not stand in for an array that is empty; every envelope returned then has \<open>null\<close>
  for the minimum and for the maximum, since \<open>JSON.stringify\<close> writes a number that
  is not finite as \<open>null\<close>. When the answer has no list of datapoints, the fallback
  stands in and the minimum and the maximum are 0, as the average is in both cases. The
  envelope is returned whenever the remote calls are answered and both bounds of the time
  range are valid dates.
\<close>

theorem empty_datapoints_serialized_null:
  assumes m3: "r_getMetricStatistics rm
       (calls @ [GetMetricStatistics (success_request h now input),
                 GetMetricStatistics (failed_request h now input)])
       (execution_time_request h now input) = Inr executionTimeMetric"
  shows "(gms_Datapoints executionTimeMetric = Some [] \<longrightarrow>
      execution_time_js executionTimeMetric =
        VObj [(''average'', VNum (Num 0)), (''minimum'', VNum PosInfinity),
              (''maximum'', VNum NegInfinity), (''dataPoints'', VArr [])]
      \<and> (\<forall>calls' result. getPipelineMetrics rm h now calls input = (calls', Inr result) \<longrightarrow>
            result_at result [''executionTime''] =
              Some (JObj [(''average'', JNum 0), (''minimum'', JNull), (''maximum'', JNull),
                          (''dataPoints'', JArr [])])))
    \<and> (gms_Datapoints executionTimeMetric = None \<longrightarrow>
      (\<forall>calls' result. getPipelineMetrics rm h now calls input = (calls', Inr result) \<longrightarrow>
            result_at result [''executionTime''] =
              Some (JObj [(''average'', JNum 0), (''minimum'', JNum 0), (''maximum'', JNum 0),
                          (''dataPoints'', JArr [])])))
    \<and> (answers_metrics rm \<and> input_startTime h now input \<noteq> None
          \<and> input_endTime h now input \<noteq> None \<longrightarrow>
        (\<exists>calls' result. getPipelineMetrics rm h now calls input = (calls', Inr result)))"
proof -
  have shape: "result_at result [''executionTime''] = to_json (execution_time_js executionTimeMetric)"
    if run: "getPipelineMetrics rm h now calls input = (calls', Inr result)" for calls' result
  proof -
    from run obtain startTime endTime s1 s2 s3 sm where
      c: "r_getMetricStatistics rm
         (calls @ [GetMetricStatistics (success_request h now input)]
            @ [GetMetricStatistics (failed_request h now input)])
         (execution_time_request h now input) = Inr s3"
      and r: "result = json_result
         (metrics_js (mi_pipelineName input) (input_period input) startTime endTime s1 s2 s3 sm)"
      by (rule getPipelineMetrics_success)
    have "s3 = executionTimeMetric" using c m3 by simp
    then show ?thesis by (simp add: r metrics_executionTime)
  qed
  have empty: "execution_time_js executionTimeMetric =
        VObj [(''average'', VNum (Num 0)), (''minimum'', VNum PosInfinity),
              (''maximum'', VNum NegInfinity), (''dataPoints'', VArr [])]
      \<and> (\<forall>calls' result. getPipelineMetrics rm h now calls input = (calls', Inr result) \<longrightarrow>
            result_at result [''executionTime''] =
              Some (JObj [(''average'', JNum 0), (''minimum'', JNull), (''maximum'', JNull),
                          (''dataPoints'', JArr [])]))"
    if "gms_Datapoints executionTimeMetric = Some []"
    using shape by (simp add: execution_time_empty [OF that])
  have absent: "\<forall>calls' result. getPipelineMetrics rm h now calls input = (calls', Inr result) \<longrightarrow>
            result_at result [''executionTime''] =
              Some (JObj [(''average'', JNum 0), (''minimum'', JNum 0), (''maximum'', JNum 0),
                          (''dataPoints'', JArr [])])"
    if "gms_Datapoints executionTimeMetric = None"
    using shape by (simp add: execution_time_absent [OF that])
  have returns: "\<exists>calls' result. getPipelineMetrics rm h now calls input = (calls', Inr result)"
    if "answers_metrics rm \<and> input_startTime h now input \<noteq> None
          \<and> input_endTime h now input \<noteq> None"
    using that getPipelineMetrics_returns [of rm h now input _ _ calls] by auto
  show ?thesis using empty absent returns by blast
qed

theorem empty_datapoints_serialized_null_witness:
  "reported (getPipelineMetrics metered_remote utc_host 0 [] metrics_input_default)
     [''executionTime'']
     = Some (JObj [(''average'', JNum 0), (''minimum'', JNull), (''maximum'', JNull),
                   (''dataPoints'', JArr [])])
   \<and> reported (getPipelineMetrics quiet_remote utc_host 0 [] metrics_input_default)
     [''executionTime'']
     = Some (JObj [(''average'', JNum 0), (''minimum'', JNum 0), (''maximum'', JNum 0),
                   (''dataPoints'', JArr [])])
   \<and> (\<exists>calls' result.
        getPipelineMetrics metered_remote utc_host 0 [] metrics_input_default = (calls', Inr result))"
proof -
  note run1 = metered_metrics_run [OF default_input_times, of utc_host "[]"]
  note run2 = quiet_metrics_run [OF default_input_times, of utc_host "[]"]
  have m: "r_getMetricStatistics metered_remote
       ([] @ [GetMetricStatistics (success_request utc_host 0 metrics_input_default),
              GetMetricStatistics (failed_request utc_host 0 metrics_input_default)])
       (execution_time_request utc_host 0 metrics_input_default) = Inr \<lparr>gms_Datapoints = Some []\<rparr>"
    by (simp add: metered_remote_def quiet_remote_def execution_time_request_def
          metric_request_def)
  have q: "r_getMetricStatistics quiet_remote
       ([] @ [GetMetricStatistics (success_request utc_host 0 metrics_input_default),
              GetMetricStatistics (failed_request utc_host 0 metrics_input_default)])
       (execution_time_request utc_host 0 metrics_input_default) = Inr \<lparr>gms_Datapoints = None\<rparr>"
    by (simp add: quiet_remote_def)
  have a: "reported (getPipelineMetrics metered_remote utc_host 0 [] metrics_input_default)
     [''executionTime'']
     = Some (JObj [(''average'', JNum 0), (''minimum'', JNull), (''maximum'', JNull),
                   (''dataPoints'', JArr [])])"
    using empty_datapoints_serialized_null [OF m] run1 by (simp add: reported_def)
  have b: "reported (getPipelineMetrics quiet_remote utc_host 0 [] metrics_input_default)
     [''executionTime'']
     = Some (JObj [(''average'', JNum 0), (''minimum'', JNum 0), (''maximum'', JNum 0),
                   (''dataPoints'', JArr [])])"
    using empty_datapoints_serialized_null [OF q] run2 by (simp add: reported_def)
  have c: "\<exists>calls' result.
        getPipelineMetrics metered_remote utc_host 0 [] metrics_input_default = (calls', Inr result)"
    using empty_datapoints_serialized_null [OF m]
    by (simp add: answers_metrics_samples default_input_times)
  show ?thesis using a b c by simp
qed

text \<open>
  Claim C10 does not hold of the code: with a present but empty list of execution-time
  datapoints the envelope shows \<open>null\<close> as the minimum and as the maximum, neither the
  two infinities nor the 0 that the fallback of the code gives without a list.
\<close>

theorem infinities_not_in_envelope:
  "reported (getPipelineMetrics metered_remote utc_host 0 [] metrics_input_default)
     [''executionTime'', ''minimum''] = Some JNull
   \<and> reported (getPipelineMetrics metered_remote utc_host 0 [] metrics_input_default)
     [''executionTime'', ''maximum''] = Some JNull
   \<and> reported (getPipelineMetrics metered_remote utc_host 0 [] metrics_input_default)
     [''executionTime'', ''average''] = Some (JNum 0)
   \<and> reported (getPipelineMetrics quiet_remote utc_host 0 [] metrics_input_default)
     [''executionTime'', ''minimum''] = Some (JNum 0)
   \<and> reported (getPipelineMetrics quiet_remote utc_host 0 [] metrics_input_default)
     [''executionTime'', ''maximum''] = Some (JNum 0)"
proof -
  have at: "result_at (json_result (metrics_js name period st en m1 m2 m3 sm))
        (''executionTime'' # path)
      = (case to_json (execution_time_js m3) of None \<Rightarrow> None | Some j \<Rightarrow> at_path j path)"
    for name period st en m1 m2 m3 sm path
    by (simp add: result_at_json_result metrics_js_def Let_def execution_time_js_def)
  show ?thesis
    by (simp add: reported_def metered_metrics_run [OF default_input_times]
          quiet_metrics_run [OF default_input_times] at execution_time_empty
          execution_time_absent)
qed

end
